theory Spec2Isabelle
  imports Main "HOL-Library.Sublist"
begin

section \<open>Strings as the action uses them\<close>

text \<open>
  A JavaScript string is modelled as a \<^typ>\<open>string\<close>: a list of characters, one
  \<^typ>\<open>char\<close> per code unit, which covers every string of code units below 256 (commit
  hashes, branch names and the messages of git are of that kind). \<open>length\<close>,
  \<open>substring\<close>, \<open>includes\<close>, \<open>split\<close> and \<open>trim\<close> then count and cut as the
  source's string type does.
\<close>

text \<open>\<open>a || b\<close> on strings: the empty string is the only falsy string.\<close>

definition orElse :: "string \<Rightarrow> string \<Rightarrow> string" where
  "orElse a b = (if a \<noteq> [] then a else b)"

text \<open>\<open>s.substring(0, n)\<close>.\<close>

definition substring0 :: "string \<Rightarrow> nat \<Rightarrow> string" where
  "substring0 s n = take n s"

text \<open>\<open>s.includes(sub)\<close>: \<open>sub\<close> occurs in \<open>s\<close> as a run of consecutive characters.\<close>

fun stringIncludes :: "string \<Rightarrow> string \<Rightarrow> bool" where
  "stringIncludes [] sub = (sub = [])"
| "stringIncludes (c # s) sub = (prefix sub (c # s) \<or> stringIncludes s sub)"

text \<open>
  The white space that \<open>String.prototype.trim\<close> removes, among the code units below 256:
  tab, line feed, vertical tab, form feed, carriage return, space and the no-break space.
\<close>

definition isWhiteSpace :: "char \<Rightarrow> bool" where
  "isWhiteSpace c = (c \<in> set [CHR 0x09, CHR 0x0A, CHR 0x0B, CHR 0x0C, CHR 0x0D, CHR 0x20, CHR 0xA0])"

definition trim :: "string \<Rightarrow> string" where
  "trim s = rev (dropWhile isWhiteSpace (rev (dropWhile isWhiteSpace s)))"

text \<open>
  \<open>s.split(sep)\<close> for a separator of one character: one piece more than there are
  separators, so the empty string splits into one empty piece.
\<close>

fun splitOn :: "char \<Rightarrow> string \<Rightarrow> string list" where
  "splitOn sep [] = [[]]"
| "splitOn sep (c # s) =
     (if c = sep then [] # splitOn sep s
      else (case splitOn sep s of [] \<Rightarrow> [[c]] | p # ps \<Rightarrow> (c # p) # ps))"

text \<open>\<open>s.replace(/\//g, '-')\<close>: every slash becomes a dash.\<close>

definition replaceSlashes :: "string \<Rightarrow> string" where
  "replaceSlashes s = map (\<lambda>c. if c = CHR ''/'' then CHR ''-'' else c) s"

text \<open>
  A non-negative integer in a template literal or under \<open>toString()\<close>: its decimal digits.
\<close>

definition digitChar :: "nat \<Rightarrow> char" where
  "digitChar d = ''0123456789'' ! d"

fun showNat :: "nat \<Rightarrow> string" where
  "showNat n = (if n < 10 then [digitChar n] else showNat (n div 10) @ [digitChar (n mod 10)])"

declare showNat.simps [simp del]

text \<open>\<open>xs.join(', ')\<close>.\<close>

fun joinComma :: "string list \<Rightarrow> string" where
  "joinComma [] = []"
| "joinComma [x] = x"
| "joinComma (x # y # ys) = x @ '', '' @ joinComma (y # ys)"

section \<open>Data of the action\<close>

record ExecOutput =
  stdout :: string
  stderr :: string
  exitCode :: int

record Inputs =
  commits :: "string list"
  targetBranch :: string
  newBranch :: string
  prTitle :: string
  prBody :: string
  ghToken :: string
  repository :: string
  authorName :: string
  authorEmail :: string
  draft :: bool
  labels :: "string list"

text \<open>The union \<open>'success' | 'conflict' | 'failed'\<close>.\<close>

datatype Status = success | conflict | failed

record CherryPickResult =
  status :: Status
  successfulCommits :: "string list"
  failedCommit :: "string option"
  error :: "string option"

fun statusText :: "Status \<Rightarrow> string" where
  "statusText success = ''success''"
| "statusText conflict = ''conflict''"
| "statusText failed = ''failed''"

text \<open>An optional string in a template literal: \<open>undefined\<close> prints as its name.\<close>

fun optText :: "string option \<Rightarrow> string" where
  "optText None = ''undefined''"
| "optText (Some s) = s"

section \<open>The world outside the action\<close>

text \<open>
  What a thrown value is to the \<open>catch\<close> of \<open>run\<close>: an \<open>Error\<close> with its message, or
  anything else.
\<close>

datatype exn = Error string | NonError

text \<open>
  What one child process gives \<open>exec.exec\<close>: the chunks its listeners receive on each
  stream, as text, and the exit code the promise resolves with. Every call of the source
  passes \<open>ignoreReturnCode: true\<close> (the default of \<open>execCommand\<close>), with which
  \<open>exec.exec\<close> resolves with the exit code of the process whatever it is; a process that
  cannot be started at all is outside the model.
\<close>

record ProcessRun =
  stdoutChunks :: "string list"
  stderrChunks :: "string list"
  processExit :: int

text \<open>
  The surroundings of one run. The processes are a script: \<open>processes env n\<close> is what the
  \<open>n\<close>-th child process of the run does (counting from 0), whatever command started it.
  Since the action is sequential and deterministic, every behaviour of git during one run
  is such a script. \<open>getInput name required\<close> is \<open>core.getInput\<close>, which throws for a
  required input that is missing; \<open>now\<close> is what \<open>Date.now()\<close> returns; the last
  three are the hosting platform's client.
\<close>

record Env =
  processes :: "nat \<Rightarrow> ProcessRun"
  getInput :: "string \<Rightarrow> bool \<Rightarrow> exn + string"
  envRepository :: string
  now :: nat
  getOctokit :: "string \<Rightarrow> exn option"
  pullsCreate :: "exn + (string \<times> nat)"
  addLabels :: "exn option"

text \<open>
  Everything a run does that can be seen from outside, in the order it happens. A child
  process is recorded with its command, its arguments and the options \<open>silent\<close> and
  \<open>ignoreReturnCode\<close> it is started with. What \<open>printHeader\<close> and \<open>printSummary\<close>
  write to the console is one event each, holding the values they print.
\<close>

datatype Event =
    Exec string "string list" bool bool
  | Info string
  | Warning string
  | SetOutput string string
  | SetSecret string
  | SetFailed string
  | PrintHeader Inputs
  | PrintSummary Inputs string CherryPickResult "(string \<times> nat) option"
  | PullsCreate "string option" "string option" string string string string bool
  | AddLabels "string option" "string option" nat "string list"

text \<open>The state of a run: how many child processes it has started, and what it has done so far.\<close>

record RunState =
  started :: nat
  trace :: "Event list"

type_synonym 'a action = "RunState \<Rightarrow> (exn + 'a) \<times> RunState"

definition ret :: "'a \<Rightarrow> 'a action" where
  "ret x s = (Inr x, s)"

definition throw :: "exn \<Rightarrow> 'a action" where
  "throw e s = (Inl e, s)"

text \<open>Sequencing: a thrown value ends what follows.\<close>

definition thenDo :: "'a action \<Rightarrow> ('a \<Rightarrow> 'b action) \<Rightarrow> 'b action" where
  "thenDo m f s = (case m s of (Inl e, s') \<Rightarrow> (Inl e, s') | (Inr x, s') \<Rightarrow> f x s')"

definition emit :: "Event \<Rightarrow> unit action" where
  "emit e s = (Inr (), s\<lparr>trace := trace s @ [e]\<rparr>)"

definition info :: "string \<Rightarrow> unit action" where
  "info msg = emit (Info msg)"

definition warning :: "string \<Rightarrow> unit action" where
  "warning msg = emit (Warning msg)"

section \<open>execCommand\<close>

record ExecOptions =
  silent :: "bool option"
  ignoreReturnCode :: "bool option"
  maxBuffer :: "nat option"

definition noOptions :: ExecOptions where
  "noOptions = \<lparr>silent = None, ignoreReturnCode = None, maxBuffer = None\<rparr>"

definition truncationMarker :: string where
  "truncationMarker = CHR 0x0A # ''... [output truncated]''"

text \<open>
  One call of a stream's listener: the text so far and the truncation flag, then the chunk.
\<close>

definition onData :: "nat \<Rightarrow> string \<times> bool \<Rightarrow> string \<Rightarrow> string \<times> bool" where
  "onData maxB acc data =
     (case acc of (buf, truncated) \<Rightarrow>
        if \<not> truncated then
          (let buf' = buf @ data in
           if length buf' > maxB then (substring0 buf' maxB @ truncationMarker, True)
           else (buf', False))
        else (buf, truncated))"

definition captureStream :: "nat \<Rightarrow> string list \<Rightarrow> string" where
  "captureStream maxB chunks = fst (foldl (onData maxB) ([], False) chunks)"

definition captured :: "nat \<Rightarrow> ProcessRun \<Rightarrow> ExecOutput" where
  "captured maxB p =
     \<lparr>stdout = trim (captureStream maxB (stdoutChunks p)),
      stderr = trim (captureStream maxB (stderrChunks p)),
      exitCode = processExit p\<rparr>"

definition defaultMaxBuffer :: nat where
  "defaultMaxBuffer = 10 * 1024 * 1024"

definition execCommand :: "Env \<Rightarrow> string \<Rightarrow> string list \<Rightarrow> ExecOptions \<Rightarrow> ExecOutput action" where
  "execCommand env command args options s =
     (let maxB = (case maxBuffer options of None \<Rightarrow> defaultMaxBuffer | Some m \<Rightarrow> m);
          p = processes env (started s)
      in (Inr (captured maxB p),
          s\<lparr>started := started s + 1,
            trace := trace s @
              [Exec command args
                 (case silent options of None \<Rightarrow> False | Some b \<Rightarrow> b)
                 (case ignoreReturnCode options of None \<Rightarrow> True | Some b \<Rightarrow> b)]\<rparr>))"

text \<open>The output that the \<open>n\<close>-th child process of a run hands to its caller.\<close>

definition outputOf :: "Env \<Rightarrow> nat \<Rightarrow> ExecOutput" where
  "outputOf env n = captured defaultMaxBuffer (processes env n)"

section \<open>cherryPickCommits\<close>

definition applyArgs :: "string \<Rightarrow> string list" where
  "applyArgs commit = [''cherry-pick'', commit, ''--no-commit'']"

definition statusArgs :: "string list" where
  "statusArgs = [''status'', ''--porcelain'']"

definition abortArgs :: "string list" where
  "abortArgs = [''cherry-pick'', ''--abort'']"

definition finalizeArgs :: "string \<Rightarrow> string list" where
  "finalizeArgs commit = [''commit'', ''-m'', ''Cherry-pick: '' @ commit]"

definition ignoreRC :: ExecOptions where
  "ignoreRC = \<lparr>silent = None, ignoreReturnCode = Some True, maxBuffer = None\<rparr>"

text \<open>
  The \<open>for\<close> loop of \<open>cherryPickCommits\<close>, over the commits still to replay, with the array
  \<open>successfulCommits\<close> as it stands when the iteration begins.
\<close>

fun cherryPickLoop :: "Env \<Rightarrow> string list \<Rightarrow> string list \<Rightarrow> CherryPickResult action" where
  "cherryPickLoop env [] applied =
     ret \<lparr>status = success, successfulCommits = applied, failedCommit = None, error = None\<rparr>"
| "cherryPickLoop env (commit # rest) applied =
     thenDo (info (''Cherry-picking commit: '' @ commit)) (\<lambda>_.
     thenDo (execCommand env ''git'' (applyArgs commit) ignoreRC) (\<lambda>result.
       if exitCode result \<noteq> 0 then
         thenDo (execCommand env ''git'' statusArgs noOptions) (\<lambda>statusResult.
           let hasConflict = (stringIncludes (stdout statusResult) ''UU'' \<or>
                              stringIncludes (stdout statusResult) ''AA'' \<or>
                              stringIncludes (stdout statusResult) ''DD'')
           in if hasConflict then
                thenDo (warning (''Conflict detected while cherry-picking '' @ commit)) (\<lambda>_.
                thenDo (execCommand env ''git'' abortArgs ignoreRC) (\<lambda>_.
                  ret \<lparr>status = conflict, successfulCommits = applied,
                       failedCommit = Some commit,
                       error = Some (''Merge conflict while cherry-picking commit '' @ commit)\<rparr>))
              else
                ret \<lparr>status = failed, successfulCommits = applied,
                     failedCommit = Some commit,
                     error = Some (orElse (stderr result) (stdout result))\<rparr>)
       else
         thenDo (execCommand env ''git'' (finalizeArgs commit) noOptions) (\<lambda>commitResult.
           if exitCode commitResult \<noteq> 0 \<and> \<not> stringIncludes (stdout commitResult) ''nothing to commit'' then
             ret \<lparr>status = failed, successfulCommits = applied,
                  failedCommit = Some commit,
                  error = Some (''Failed to commit cherry-pick: '' @ stderr commitResult)\<rparr>
           else
             thenDo (info (''Successfully cherry-picked: '' @ commit)) (\<lambda>_.
               cherryPickLoop env rest (applied @ [commit])))))"

definition cherryPickCommits :: "Env \<Rightarrow> string list \<Rightarrow> CherryPickResult action" where
  "cherryPickCommits env cs = cherryPickLoop env cs []"

section \<open>The other steps of a run\<close>

definition configureGit :: "Env \<Rightarrow> string \<Rightarrow> string \<Rightarrow> unit action" where
  "configureGit env name email =
     thenDo (info ''Configuring git...'') (\<lambda>_.
     thenDo (execCommand env ''git'' [''config'', ''user.name'', name] noOptions) (\<lambda>_.
     thenDo (execCommand env ''git'' [''config'', ''user.email'', email] noOptions) (\<lambda>_.
       ret ())))"

definition fetchBranch :: "Env \<Rightarrow> string \<Rightarrow> unit action" where
  "fetchBranch env branch =
     thenDo (info (''Fetching branch: '' @ branch)) (\<lambda>_.
     thenDo (execCommand env ''git'' [''fetch'', ''origin'', branch] noOptions) (\<lambda>result.
       if exitCode result \<noteq> 0 then
         throw (Error (''Failed to fetch branch '' @ branch @ '': '' @ stderr result))
       else ret ()))"

definition createBranch :: "Env \<Rightarrow> string \<Rightarrow> string \<Rightarrow> unit action" where
  "createBranch env branchName baseBranch =
     thenDo (info (''Creating branch '' @ branchName @ '' from origin/'' @ baseBranch)) (\<lambda>_.
     thenDo (execCommand env ''git'' [''checkout'', ''origin/'' @ baseBranch] noOptions) (\<lambda>result.
       if exitCode result \<noteq> 0 then
         throw (Error (''Failed to checkout origin/'' @ baseBranch @ '': '' @ stderr result))
       else
         thenDo (execCommand env ''git'' [''checkout'', ''-b'', branchName] noOptions) (\<lambda>result2.
           if exitCode result2 \<noteq> 0 then
             throw (Error (''Failed to create branch '' @ branchName @ '': '' @ stderr result2))
           else ret ())))"

definition pushArgs :: "string \<Rightarrow> string list" where
  "pushArgs branchName = [''push'', ''origin'', branchName]"

definition pushBranch :: "Env \<Rightarrow> string \<Rightarrow> unit action" where
  "pushBranch env branchName =
     thenDo (info (''Pushing branch: '' @ branchName)) (\<lambda>_.
     thenDo (execCommand env ''git'' (pushArgs branchName) noOptions) (\<lambda>result.
       if exitCode result \<noteq> 0 then
         throw (Error (''Failed to push branch: '' @ stderr result))
       else ret ()))"

definition silentOption :: ExecOptions where
  "silentOption = \<lparr>silent = Some True, ignoreReturnCode = None, maxBuffer = None\<rparr>"

definition getCommitMessage :: "Env \<Rightarrow> string \<Rightarrow> string action" where
  "getCommitMessage env commit =
     thenDo (execCommand env ''git'' [''log'', ''-1'', ''--format=%s'', commit] silentOption) (\<lambda>result.
       ret (stdout result))"

section \<open>generateBranchName\<close>

text \<open>
  \<open>commits[0].substring(0, 7)\<close> throws a \<open>TypeError\<close> on an empty array; the time stamp is
  the number of milliseconds since the epoch, which is not negative.
\<close>

definition generateBranchName :: "nat \<Rightarrow> string \<Rightarrow> string list \<Rightarrow> exn + string" where
  "generateBranchName timestamp target cs =
     (case cs of
        [] \<Rightarrow> Inl (Error ''Cannot read properties of undefined'')
      | first # _ \<Rightarrow>
          (let shortSha = substring0 first 7;
               sanitizedTarget = replaceSlashes target
           in Inr (''cherrypick/'' @ sanitizedTarget @ ''/'' @ shortSha @ ''-'' @ showNat timestamp)))"

text \<open>
  Line 317 of the source:
  \<open>inputs.newBranch || generateBranchName(inputs.targetBranch, inputs.commits)\<close>.
\<close>

definition chooseBranchName :: "Env \<Rightarrow> Inputs \<Rightarrow> string action" where
  "chooseBranchName env inputs =
     (if newBranch inputs \<noteq> [] then ret (newBranch inputs)
      else (case generateBranchName (now env) (targetBranch inputs) (commits inputs) of
              Inl e \<Rightarrow> throw e
            | Inr name \<Rightarrow> ret name))"

section \<open>createPullRequest\<close>

text \<open>\<open>const [owner, repo] = inputs.repository.split('/')\<close>: a missing piece is undefined.\<close>

definition ownerAndRepo :: "string \<Rightarrow> string option \<times> string option" where
  "ownerAndRepo repo =
     (case splitOn CHR ''/'' repo of
        [] \<Rightarrow> (None, None)
      | [owner] \<Rightarrow> (Some owner, None)
      | owner # name # _ \<Rightarrow> (Some owner, Some name))"

definition backtick :: string where
  "backtick = [CHR 0x60]"

definition newline :: string where
  "newline = [CHR 0x0A]"

text \<open>
  The \<open>for\<close> loop that appends one line per commit to the body, with the body so far.
\<close>

fun appendCommitLines :: "Env \<Rightarrow> string list \<Rightarrow> string \<Rightarrow> string action" where
  "appendCommitLines env [] body = ret body"
| "appendCommitLines env (commit # rest) body =
     thenDo (getCommitMessage env commit) (\<lambda>msg.
       appendCommitLines env rest
         (body @ ''- '' @ backtick @ substring0 commit 7 @ backtick @ '' '' @ msg @ newline))"

definition bodyFooter :: string where
  "bodyFooter = ''Generated by [flxbl-actions/cherrypick-and-create-pr](https://github.com/flxbl-io/cherrypick-and-create-pr)''"

definition createPullRequest ::
    "Env \<Rightarrow> Inputs \<Rightarrow> string \<Rightarrow> CherryPickResult \<Rightarrow> (string \<times> nat) action" where
  "createPullRequest env inputs branchName cherryPickResult =
     thenDo (case getOctokit env (ghToken inputs) of Some e \<Rightarrow> throw e | None \<Rightarrow> ret ()) (\<lambda>_.
     case ownerAndRepo (repository inputs) of (owner, repo) \<Rightarrow>
     thenDo
       (if prTitle inputs = [] then
          (if length (commits inputs) = 1 then
             thenDo (getCommitMessage env (commits inputs ! 0)) (\<lambda>title.
               ret (''Cherry-pick: '' @ title))
           else
             ret (''Cherry-pick '' @ showNat (length (commits inputs)) @ '' commits to '' @
                  targetBranch inputs))
        else ret (prTitle inputs)) (\<lambda>title.
     thenDo
       (if prBody inputs = [] then
          thenDo (appendCommitLines env (successfulCommits cherryPickResult)
                    (''## Cherry-pick PR'' @ newline @ newline @
                     ''**Target branch:** '' @ backtick @ targetBranch inputs @ backtick @
                       newline @ newline @
                     ''### Commits cherry-picked:'' @ newline)) (\<lambda>body.
            ret (body @ newline @ ''---'' @ newline @ bodyFooter))
        else ret (prBody inputs)) (\<lambda>body.
     thenDo (info ''Creating pull request...'') (\<lambda>_.
     thenDo (emit (PullsCreate owner repo title body branchName (targetBranch inputs) (draft inputs))) (\<lambda>_.
     case pullsCreate env of
       Inl e \<Rightarrow> throw e
     | Inr (url, number) \<Rightarrow>
         thenDo (info (''Pull request created: '' @ url)) (\<lambda>_.
         thenDo
           (if length (labels inputs) > 0 then
              thenDo (info (''Adding labels: '' @ joinComma (labels inputs))) (\<lambda>_.
              thenDo (emit (AddLabels owner repo number (labels inputs))) (\<lambda>_.
                case addLabels env of Some e \<Rightarrow> throw e | None \<Rightarrow> ret ()))
            else ret ()) (\<lambda>_.
           ret (url, number))))))))"

section \<open>run\<close>

definition input :: "Env \<Rightarrow> string \<Rightarrow> bool \<Rightarrow> string action" where
  "input env name required = (case getInput env name required of Inl e \<Rightarrow> throw e | Inr v \<Rightarrow> ret v)"

text \<open>\<open>raw.split(',').map(c => c.trim())\<close>.\<close>

definition splitAndTrim :: "string \<Rightarrow> string list" where
  "splitAndTrim raw = map trim (splitOn CHR '','' raw)"

text \<open>The object literal of lines 289 to 301, its fields evaluated from top to bottom.\<close>

definition readInputs :: "Env \<Rightarrow> Inputs action" where
  "readInputs env =
     thenDo (input env ''commits'' True) (\<lambda>commitsRaw.
     thenDo (input env ''target-branch'' True) (\<lambda>target.
     thenDo (input env ''new-branch'' False) (\<lambda>newBranchRaw.
     thenDo (input env ''pr-title'' False) (\<lambda>title.
     thenDo (input env ''pr-body'' False) (\<lambda>body.
     thenDo (input env ''gh-token'' True) (\<lambda>token.
     thenDo (input env ''repository'' False) (\<lambda>repo.
     thenDo (input env ''author-name'' False) (\<lambda>name.
     thenDo (input env ''author-email'' False) (\<lambda>email.
     thenDo (input env ''draft'' False) (\<lambda>draftRaw.
     thenDo (input env ''labels'' False) (\<lambda>labelsRaw.
     thenDo (if labelsRaw \<noteq> [] then
               thenDo (input env ''labels'' False) (\<lambda>again. ret (splitAndTrim again))
             else ret []) (\<lambda>labelList.
       ret \<lparr>commits = splitAndTrim commitsRaw,
            targetBranch = target,
            newBranch = orElse newBranchRaw [],
            prTitle = orElse title [],
            prBody = orElse body [],
            ghToken = token,
            repository = orElse (orElse repo (envRepository env)) [],
            authorName = orElse name ''github-actions[bot]'',
            authorEmail = orElse email ''github-actions[bot]@users.noreply.github.com'',
            draft = (draftRaw = ''true''),
            labels = labelList\<rparr>))))))))))))"

text \<open>The test of line 307.\<close>

definition noCommitsSpecified :: "string list \<Rightarrow> bool" where
  "noCommitsSpecified cs = (length cs = 0 \<or> (length cs = 1 \<and> cs ! 0 = []))"

text \<open>Lines 289 to 327: everything \<open>run\<close> does before the replay.\<close>

definition runSetup :: "Env \<Rightarrow> (Inputs \<times> string) action" where
  "runSetup env =
     thenDo (readInputs env) (\<lambda>inputs.
       if repository inputs = [] then
         throw (Error ''Repository not specified and GITHUB_REPOSITORY not set'')
       else if noCommitsSpecified (commits inputs) then
         throw (Error ''No commits specified'')
       else
         thenDo (emit (SetSecret (ghToken inputs))) (\<lambda>_.
         thenDo (emit (PrintHeader inputs)) (\<lambda>_.
         thenDo (chooseBranchName env inputs) (\<lambda>branchName.
         thenDo (info (''Using branch name: '' @ branchName)) (\<lambda>_.
         thenDo (configureGit env (authorName inputs) (authorEmail inputs)) (\<lambda>_.
         thenDo (fetchBranch env (targetBranch inputs)) (\<lambda>_.
         thenDo (createBranch env branchName (targetBranch inputs)) (\<lambda>_.
           ret (inputs, branchName)))))))))"

text \<open>Lines 331 to 356: everything \<open>run\<close> does once the replay has returned.\<close>

definition runFinish :: "Env \<Rightarrow> Inputs \<Rightarrow> string \<Rightarrow> CherryPickResult \<Rightarrow> unit action" where
  "runFinish env inputs branchName cherryPickResult =
     thenDo (emit (SetOutput ''cherry-pick-status'' (statusText (status cherryPickResult)))) (\<lambda>_.
     thenDo (emit (SetOutput ''branch-name'' branchName)) (\<lambda>_.
       if status cherryPickResult = failed then
         thenDo (emit (PrintSummary inputs branchName cherryPickResult None)) (\<lambda>_.
           throw (Error (''Cherry-pick failed: '' @ optText (error cherryPickResult))))
       else if status cherryPickResult = conflict then
         thenDo (emit (PrintSummary inputs branchName cherryPickResult None)) (\<lambda>_.
         thenDo (warning ''Cherry-pick had conflicts. Manual intervention required.'') (\<lambda>_.
         thenDo (emit (SetFailed (''Merge conflict while cherry-picking commit '' @
                                  optText (failedCommit cherryPickResult)))) (\<lambda>_.
           ret ())))
       else
         thenDo (pushBranch env branchName) (\<lambda>_.
         thenDo (createPullRequest env inputs branchName cherryPickResult) (\<lambda>pr.
         thenDo (emit (SetOutput ''pr-url'' (fst pr))) (\<lambda>_.
         thenDo (emit (SetOutput ''pr-number'' (showNat (snd pr)))) (\<lambda>_.
         thenDo (emit (PrintSummary inputs branchName cherryPickResult (Some pr))) (\<lambda>_.
         thenDo (info ''Cherry-pick and PR creation completed successfully!'') (\<lambda>_.
           ret ()))))))))"

text \<open>The body of the \<open>try\<close> block.\<close>

definition runBody :: "Env \<Rightarrow> unit action" where
  "runBody env =
     thenDo (runSetup env) (\<lambda>setup.
     thenDo (cherryPickCommits env (commits (fst setup))) (\<lambda>cherryPickResult.
       runFinish env (fst setup) (snd setup) cherryPickResult))"

text \<open>\<open>run\<close>: the \<open>try\<close> block and its \<open>catch\<close>. It returns the state the run ends in.\<close>

definition run :: "Env \<Rightarrow> RunState \<Rightarrow> RunState" where
  "run env s =
     (case runBody env s of
        (Inr _, s') \<Rightarrow> s'
      | (Inl (Error message), s') \<Rightarrow> s'\<lparr>trace := trace s' @ [SetFailed message]\<rparr>
      | (Inl NonError, s') \<Rightarrow> s'\<lparr>trace := trace s' @ [SetFailed ''Unknown error occurred'']\<rparr>)"

definition initialState :: RunState where
  "initialState = \<lparr>started = 0, trace = []\<rparr>"

section \<open>Reading a trace\<close>

text \<open>The child processes a trace started, in order: command and arguments.\<close>

fun execCall :: "Event \<Rightarrow> (string \<times> string list) list" where
  "execCall (Exec command args _ _) = [(command, args)]"
| "execCall _ = []"

definition execCalls :: "Event list \<Rightarrow> (string \<times> string list) list" where
  "execCalls tr = concat (map execCall tr)"

text \<open>
  The commits a trace tried to apply, in order: one for each
  \<open>git cherry-pick <commit> --no-commit\<close> it started.
\<close>

fun attemptOf :: "Event \<Rightarrow> string list" where
  "attemptOf (Exec command [a, commit, b] _ _) =
     (if command = ''git'' \<and> a = ''cherry-pick'' \<and> b = ''--no-commit'' then [commit] else [])"
| "attemptOf _ = []"

definition attemptedCommits :: "Event list \<Rightarrow> string list" where
  "attemptedCommits tr = concat (map attemptOf tr)"

text \<open>The push of a branch, and the creation of a pull request.\<close>

fun isPush :: "Event \<Rightarrow> bool" where
  "isPush (Exec command args _ _) = (command = ''git'' \<and> take 1 args = [''push''])"
| "isPush _ = False"

fun isPullsCreate :: "Event \<Rightarrow> bool" where
  "isPullsCreate (PullsCreate _ _ _ _ _ _ _) = True"
| "isPullsCreate _ = False"

text \<open>
  An action emits only events of one kind: from any state, what it adds to the trace is
  made of such events, and it takes nothing away.
\<close>

definition emitsOnly :: "(Event \<Rightarrow> bool) \<Rightarrow> 'a action \<Rightarrow> bool" where
  "emitsOnly P m = (\<forall>s. \<exists>new. trace (snd (m s)) = trace s @ new \<and> list_all P new)"

definition notPublishing :: "Event \<Rightarrow> bool" where
  "notPublishing e = (\<not> isPush e \<and> \<not> isPullsCreate e)"

text \<open>The value of a decimal numeral.\<close>

definition digitValue :: "char \<Rightarrow> nat" where
  "digitValue c = of_char c - 48"

definition readNat :: "string \<Rightarrow> nat" where
  "readNat ds = foldl (\<lambda>n c. 10 * n + digitValue c) 0 ds"

section \<open>Example surroundings\<close>

text \<open>A child process that prints nothing and exits with 0, and one that fails.\<close>

definition quietProcess :: ProcessRun where
  "quietProcess = \<lparr>stdoutChunks = [], stderrChunks = [], processExit = 0\<rparr>"

definition printing :: "string \<Rightarrow> string \<Rightarrow> int \<Rightarrow> ProcessRun" where
  "printing out err code = \<lparr>stdoutChunks = [out], stderrChunks = [err], processExit = code\<rparr>"

text \<open>Surroundings with the given processes and inputs, where the platform accepts everything.\<close>

definition surroundings :: "(nat \<Rightarrow> ProcessRun) \<Rightarrow> (string \<Rightarrow> string) \<Rightarrow> Env" where
  "surroundings ps ins =
     \<lparr>processes = ps,
      getInput = (\<lambda>name required. Inr (ins name)),
      envRepository = ''flxbl-io/demo'',
      now = 1700000000000,
      getOctokit = (\<lambda>token. None),
      pullsCreate = Inr (''https://github.com/flxbl-io/demo/pull/7'', 7),
      addLabels = None\<rparr>"

definition noInputs :: "string \<Rightarrow> string" where
  "noInputs name = []"

text \<open>
  Scenario B of the specification, seen from the replay: the first commit applies and
  finalizes, the apply of the second fails and the status shows a path modified on both
  sides.
\<close>

definition conflictAtSecond :: "nat \<Rightarrow> ProcessRun" where
  "conflictAtSecond n =
     (if n = 2 then printing [] ''error: could not apply def5678'' 1
      else if n = 3 then printing ''UU src/app.ts'' [] 0
      else quietProcess)"

text \<open>
  An apply that fails because the commit does not exist, in a working tree whose only
  entry is an untracked file whose name has two capital A in a row.
\<close>

definition badObject :: "nat \<Rightarrow> ProcessRun" where
  "badObject n =
     (if n = 0 then printing [] ''fatal: bad revision'' 128
      else if n = 1 then printing ''?? docs/AAA.txt'' [] 0
      else quietProcess)"

text \<open>Scenario D: the finalize step of the first commit finds nothing to commit.\<close>

definition nothingToCommit :: "nat \<Rightarrow> ProcessRun" where
  "nothingToCommit n =
     (if n = 1 then printing ''nothing to commit, working tree clean'' [] 1
      else quietProcess)"

text \<open>A finalize step that fails for another reason.\<close>

definition hookRejects :: "nat \<Rightarrow> ProcessRun" where
  "hookRejects n =
     (if n = 1 then printing ''On branch cherrypick'' ''pre-commit hook failed'' 1
      else quietProcess)"

text \<open>An apply that fails in a clean working tree and reports on its standard output only.\<close>

definition applyFailsOnStdout :: "nat \<Rightarrow> ProcessRun" where
  "applyFailsOnStdout n =
     (if n = 0 then printing ''cherry-pick is not possible'' [] 128
      else quietProcess)"

text \<open>
  The inputs of the scenarios of the specification: a list of commits, the target branch
  \<open>release/1.0\<close> and a token; everything else is left to its default.
\<close>

definition scenarioInputs :: "string \<Rightarrow> string \<Rightarrow> string" where
  "scenarioInputs commitList name =
     (if name = ''commits'' then commitList
      else if name = ''target-branch'' then ''release/1.0''
      else if name = ''gh-token'' then ''token''
      else [])"

text \<open>
  A script for a whole run: the five child processes of the setup (two settings of the
  identity, the fetch and two checkouts) are quiet, and the replay sees the given script.
\<close>

definition afterSetup :: "(nat \<Rightarrow> ProcessRun) \<Rightarrow> nat \<Rightarrow> ProcessRun" where
  "afterSetup ps n = (if n < 5 then quietProcess else ps (n - 5))"

text \<open>A replay of one commit that goes well, after which the push is refused.\<close>

definition pushRejected :: "nat \<Rightarrow> ProcessRun" where
  "pushRejected n =
     (if n = 2 then printing [] ''remote rejected'' 1
      else quietProcess)"

text \<open>
  The subjects of two commits, as \<open>git log\<close> prints them for the first two child
  processes; every other child process is quiet.
\<close>

definition subjects :: "nat \<Rightarrow> ProcessRun" where
  "subjects n =
     (if n = 0 then printing ''Fix login'' [] 0
      else if n = 1 then printing ''Add tests'' [] 0
      else quietProcess)"

text \<open>The subject of one commit, asked for twice.\<close>

definition oneSubject :: "nat \<Rightarrow> ProcessRun" where
  "oneSubject n = (if n < 2 then printing ''Fix login'' [] 0 else quietProcess)"

definition scenarioRecord :: "string list \<Rightarrow> Inputs" where
  "scenarioRecord cs =
     \<lparr>commits = cs, targetBranch = ''release/1.0'', newBranch = [], prTitle = [],
      prBody = [], ghToken = ''token'', repository = ''flxbl-io/demo'',
      authorName = ''github-actions[bot]'',
      authorEmail = ''github-actions[bot]@users.noreply.github.com'',
      draft = False, labels = []\<rparr>"

section \<open>Sequencing\<close>

lemma thenDo_ret [simp]: "thenDo (ret x) f s = f x s"
  by (simp add: thenDo_def ret_def)

lemma thenDo_throw [simp]: "thenDo (throw e) f s = (Inl e, s)"
  by (simp add: thenDo_def throw_def)

lemma thenDo_emit [simp]: "thenDo (emit e) f s = f () (s\<lparr>trace := trace s @ [e]\<rparr>)"
  by (simp add: thenDo_def emit_def)

lemma thenDo_info [simp]: "thenDo (info m) f s = f () (s\<lparr>trace := trace s @ [Info m]\<rparr>)"
  by (simp add: info_def)

lemma thenDo_warning [simp]: "thenDo (warning m) f s = f () (s\<lparr>trace := trace s @ [Warning m]\<rparr>)"
  by (simp add: warning_def)

text \<open>No caller sets \<open>maxBuffer\<close>, so every call captures with the default.\<close>

lemma thenDo_execCommand [simp]:
  "maxBuffer options = None \<Longrightarrow>
   thenDo (execCommand env command args options) f s =
     f (outputOf env (started s))
       (s\<lparr>started := Suc (started s),
          trace := trace s @
            [Exec command args
               (case silent options of None \<Rightarrow> False | Some b \<Rightarrow> b)
               (case ignoreReturnCode options of None \<Rightarrow> True | Some b \<Rightarrow> b)]\<rparr>)"
  by (simp add: thenDo_def execCommand_def outputOf_def Let_def)

lemma options_simps [simp]:
  "maxBuffer noOptions = None" "maxBuffer ignoreRC = None" "maxBuffer silentOption = None"
  "silent noOptions = None" "silent ignoreRC = None" "silent silentOption = Some True"
  "ignoreReturnCode noOptions = None" "ignoreReturnCode ignoreRC = Some True"
  "ignoreReturnCode silentOption = None"
  by (simp_all add: noOptions_def ignoreRC_def silentOption_def)

section \<open>Strings\<close>

lemma stringIncludes_iff: "stringIncludes s sub \<longleftrightarrow> (\<exists>p q. s = p @ sub @ q)"
proof (induction s)
  case Nil
  then show ?case by auto
next
  case (Cons c s)
  show ?case
  proof
    assume "stringIncludes (c # s) sub"
    then consider "prefix sub (c # s)" | "stringIncludes s sub" by auto
    then show "\<exists>p q. c # s = p @ sub @ q"
    proof cases
      case 1
      then obtain q where "c # s = sub @ q" by (auto simp: prefix_def)
      then have "c # s = [] @ sub @ q" by simp
      then show ?thesis by blast
    next
      case 2
      with Cons.IH obtain p q where "s = p @ sub @ q" by blast
      then have "c # s = (c # p) @ sub @ q" by simp
      then show ?thesis by blast
    qed
  next
    assume "\<exists>p q. c # s = p @ sub @ q"
    then obtain p q where pq: "c # s = p @ sub @ q" by blast
    show "stringIncludes (c # s) sub"
    proof (cases p)
      case Nil
      with pq have "prefix sub (c # s)" by (simp add: prefix_def)
      then show ?thesis by simp
    next
      case (Cons a p')
      with pq have "s = p' @ sub @ q" by simp
      with Cons.IH have "stringIncludes s sub" by blast
      then show ?thesis by simp
    qed
  qed
qed

section \<open>Traces\<close>

lemma execCalls_simps [simp]:
  "execCalls [] = []"
  "execCalls (tr @ tr') = execCalls tr @ execCalls tr'"
  "execCalls (e # tr) = execCall e @ execCalls tr"
  by (simp_all add: execCalls_def)

lemma attemptedCommits_simps [simp]:
  "attemptedCommits [] = []"
  "attemptedCommits (tr @ tr') = attemptedCommits tr @ attemptedCommits tr'"
  "attemptedCommits (e # tr) = attemptOf e @ attemptedCommits tr"
  by (simp_all add: attemptedCommits_def)

lemma attemptOf_calls [simp]:
  "attemptOf (Exec ''git'' (applyArgs c) a b) = [c]"
  "attemptOf (Exec ''git'' (finalizeArgs c) a b) = []"
  "attemptOf (Exec ''git'' statusArgs a b) = []"
  "attemptOf (Exec ''git'' abortArgs a b) = []"
  by (simp_all add: applyArgs_def finalizeArgs_def statusArgs_def abortArgs_def)

section \<open>Example surroundings, evaluated\<close>

lemma outputOf_quiet [simp]:
  "processes env n = quietProcess \<Longrightarrow> outputOf env n = \<lparr>stdout = [], stderr = [], exitCode = 0\<rparr>"
  by (simp add: outputOf_def captured_def quietProcess_def captureStream_def trim_def)

lemma processes_surroundings [simp]: "processes (surroundings ps ins) = ps"
  by (simp add: surroundings_def)

section \<open>The replay engine\<close>

text \<open>One iteration of the loop, in each of its four outcomes.\<close>

lemma loop_step_conflict:
  assumes "exitCode (outputOf env (started s)) \<noteq> 0"
    and "stringIncludes (stdout (outputOf env (Suc (started s)))) ''UU'' \<or>
         stringIncludes (stdout (outputOf env (Suc (started s)))) ''AA'' \<or>
         stringIncludes (stdout (outputOf env (Suc (started s)))) ''DD''"
  shows "cherryPickLoop env (c # cs) applied s =
    (Inr \<lparr>status = conflict, successfulCommits = applied, failedCommit = Some c,
          error = Some (''Merge conflict while cherry-picking commit '' @ c)\<rparr>,
     s\<lparr>started := started s + 3,
       trace := trace s @
         [Info (''Cherry-picking commit: '' @ c),
          Exec ''git'' (applyArgs c) False True,
          Exec ''git'' statusArgs False True,
          Warning (''Conflict detected while cherry-picking '' @ c),
          Exec ''git'' abortArgs False True]\<rparr>)"
  using assms by (simp add: ret_def Let_def)

lemma loop_step_failed:
  assumes "exitCode (outputOf env (started s)) \<noteq> 0"
    and "\<not> (stringIncludes (stdout (outputOf env (Suc (started s)))) ''UU'' \<or>
         stringIncludes (stdout (outputOf env (Suc (started s)))) ''AA'' \<or>
         stringIncludes (stdout (outputOf env (Suc (started s)))) ''DD'')"
  shows "cherryPickLoop env (c # cs) applied s =
    (Inr \<lparr>status = failed, successfulCommits = applied, failedCommit = Some c,
          error = Some (orElse (stderr (outputOf env (started s))) (stdout (outputOf env (started s))))\<rparr>,
     s\<lparr>started := started s + 2,
       trace := trace s @
         [Info (''Cherry-picking commit: '' @ c),
          Exec ''git'' (applyArgs c) False True,
          Exec ''git'' statusArgs False True]\<rparr>)"
  using assms by (simp add: ret_def Let_def)

lemma loop_step_finalize_failed:
  assumes "exitCode (outputOf env (started s)) = 0"
    and "exitCode (outputOf env (Suc (started s))) \<noteq> 0"
    and "\<not> stringIncludes (stdout (outputOf env (Suc (started s)))) ''nothing to commit''"
  shows "cherryPickLoop env (c # cs) applied s =
    (Inr \<lparr>status = failed, successfulCommits = applied, failedCommit = Some c,
          error = Some (''Failed to commit cherry-pick: '' @ stderr (outputOf env (Suc (started s))))\<rparr>,
     s\<lparr>started := started s + 2,
       trace := trace s @
         [Info (''Cherry-picking commit: '' @ c),
          Exec ''git'' (applyArgs c) False True,
          Exec ''git'' (finalizeArgs c) False True]\<rparr>)"
  using assms by (simp add: ret_def Let_def)

lemma loop_step_applied:
  assumes "exitCode (outputOf env (started s)) = 0"
    and "exitCode (outputOf env (Suc (started s))) = 0 \<or>
         stringIncludes (stdout (outputOf env (Suc (started s)))) ''nothing to commit''"
  shows "cherryPickLoop env (c # cs) applied s =
    cherryPickLoop env cs (applied @ [c])
      (s\<lparr>started := started s + 2,
         trace := trace s @
           [Info (''Cherry-picking commit: '' @ c),
            Exec ''git'' (applyArgs c) False True,
            Exec ''git'' (finalizeArgs c) False True,
            Info (''Successfully cherry-picked: '' @ c)]\<rparr>)"
  using assms by (auto simp add: ret_def Let_def)

text \<open>
  Whatever the child processes do, the loop returns a result (it never throws), and the
  result accounts for a prefix of the commits it was given.
\<close>

lemma loop_shape:
  "case cherryPickLoop env cs applied s of
     (Inl e, s') \<Rightarrow> False
   | (Inr res, s') \<Rightarrow>
       (\<exists>n. n \<le> length cs \<and>
          successfulCommits res = applied @ take n cs \<and>
          (status res = success \<longrightarrow> n = length cs \<and> failedCommit res = None \<and> error res = None) \<and>
          (status res \<noteq> success \<longrightarrow>
             n < length cs \<and> failedCommit res = Some (cs ! n) \<and> error res \<noteq> None) \<and>
          attemptedCommits (trace s') =
            attemptedCommits (trace s) @ take (if status res = success then n else Suc n) cs)"
proof (induction cs arbitrary: applied s)
  case Nil
  then show ?case by (simp add: ret_def)
next
  case (Cons c cs)
  let ?a = "outputOf env (started s)"
  let ?b = "outputOf env (Suc (started s))"
  let ?marked = "stringIncludes (stdout ?b) ''UU'' \<or> stringIncludes (stdout ?b) ''AA'' \<or>
                 stringIncludes (stdout ?b) ''DD''"
  let ?tolerated = "exitCode ?b = 0 \<or> stringIncludes (stdout ?b) ''nothing to commit''"
  consider (conflict) "exitCode ?a \<noteq> 0" ?marked
    | (failed) "exitCode ?a \<noteq> 0" "\<not> ?marked"
    | (unfinalized) "exitCode ?a = 0" "\<not> ?tolerated"
    | (applied) "exitCode ?a = 0" ?tolerated
    by blast
  then show ?case
  proof cases
    case conflict
    show ?thesis
      unfolding loop_step_conflict [OF conflict]
      by (simp; rule exI [of _ 0]; simp)
  next
    case failed
    show ?thesis
      unfolding loop_step_failed [OF failed]
      by (simp; rule exI [of _ 0]; simp)
  next
    case unfinalized
    then have "exitCode ?b \<noteq> 0" "\<not> stringIncludes (stdout ?b) ''nothing to commit''" by auto
    note step = loop_step_finalize_failed [OF unfinalized(1) this]
    show ?thesis
      unfolding step
      by (simp; rule exI [of _ 0]; simp)
  next
    case applied
    note step = loop_step_applied [OF applied, of c cs applied]
    let ?s = "s\<lparr>started := started s + 2,
         trace := trace s @
           [Info (''Cherry-picking commit: '' @ c),
            Exec ''git'' (applyArgs c) False True,
            Exec ''git'' (finalizeArgs c) False True,
            Info (''Successfully cherry-picked: '' @ c)]\<rparr>"
    obtain r s' where run: "cherryPickLoop env cs (applied @ [c]) ?s = (r, s')"
      by (cases "cherryPickLoop env cs (applied @ [c]) ?s") blast
    with Cons.IH [of "applied @ [c]" ?s] obtain res n where
      r: "r = Inr res" and
      n: "n \<le> length cs" and
      got: "successfulCommits res = (applied @ [c]) @ take n cs" and
      ok: "status res = success \<longrightarrow> n = length cs \<and> failedCommit res = None \<and> error res = None" and
      ko: "status res \<noteq> success \<longrightarrow> n < length cs \<and> failedCommit res = Some (cs ! n) \<and> error res \<noteq> None" and
      tried: "attemptedCommits (trace s') =
         attemptedCommits (trace ?s) @ take (if status res = success then n else Suc n) cs"
      by (auto split: sum.splits)
    have "\<exists>m. m \<le> length (c # cs) \<and>
          successfulCommits res = applied @ take m (c # cs) \<and>
          (status res = success \<longrightarrow> m = length (c # cs) \<and> failedCommit res = None \<and> error res = None) \<and>
          (status res \<noteq> success \<longrightarrow>
             m < length (c # cs) \<and> failedCommit res = Some ((c # cs) ! m) \<and> error res \<noteq> None) \<and>
          attemptedCommits (trace s') =
            attemptedCommits (trace s) @ take (if status res = success then m else Suc m) (c # cs)"
      by (rule exI [of _ "Suc n"]) (use n got ok ko tried in simp)
    then show ?thesis
      unfolding step run r by simp
  qed
qed

lemma loop_clean:
  assumes "\<forall>i < 2 * length cs. exitCode (outputOf env (started s + i)) = 0"
  shows "\<exists>new. cherryPickLoop env cs applied s =
           (Inr \<lparr>status = success, successfulCommits = applied @ cs,
                 failedCommit = None, error = None\<rparr>,
            s\<lparr>started := started s + 2 * length cs, trace := trace s @ new\<rparr>) \<and>
         execCalls new =
           concat (map (\<lambda>c. [(''git'', applyArgs c), (''git'', finalizeArgs c)]) cs)"
  using assms
proof (induction cs arbitrary: applied s)
  case Nil
  show ?case
    by (rule exI [of _ "[]"]) (simp add: ret_def)
next
  case (Cons c cs)
  have a: "exitCode (outputOf env (started s)) = 0"
    using Cons.prems by (auto dest: spec [of _ 0])
  have b: "exitCode (outputOf env (Suc (started s))) = 0 \<or>
         stringIncludes (stdout (outputOf env (Suc (started s)))) ''nothing to commit''"
    using Cons.prems by (auto dest: spec [of _ 1])
  let ?four = "[Info (''Cherry-picking commit: '' @ c),
            Exec ''git'' (applyArgs c) False True,
            Exec ''git'' (finalizeArgs c) False True,
            Info (''Successfully cherry-picked: '' @ c)]"
  let ?s = "s\<lparr>started := started s + 2, trace := trace s @ ?four\<rparr>"
  have rest: "\<forall>i < 2 * length cs. exitCode (outputOf env (started ?s + i)) = 0"
  proof (intro allI impI)
    fix i assume "i < 2 * length cs"
    then have "i + 2 < 2 * length (c # cs)" by simp
    with Cons.prems have "exitCode (outputOf env (started s + (i + 2))) = 0" by blast
    then show "exitCode (outputOf env (started ?s + i)) = 0"
      by (simp add: add.commute add.left_commute)
  qed
  from Cons.IH [OF rest, of "applied @ [c]"] obtain new where
    run: "cherryPickLoop env cs (applied @ [c]) ?s =
           (Inr \<lparr>status = success, successfulCommits = (applied @ [c]) @ cs,
                 failedCommit = None, error = None\<rparr>,
            ?s\<lparr>started := started ?s + 2 * length cs, trace := trace ?s @ new\<rparr>)" and
    calls: "execCalls new =
           concat (map (\<lambda>c. [(''git'', applyArgs c), (''git'', finalizeArgs c)]) cs)"
    by (elim exE conjE)
  show ?case
    unfolding loop_step_applied [OF a b] run
    by (rule exI [of _ "?four @ new"]) (simp add: calls)
qed

text \<open>
  C1. When every apply step and every finalize step exits with 0, the replay returns
  status \<open>success\<close> and \<open>successfulCommits\<close> is the whole input list in its order. The
  replay may begin in any state \<open>s\<close>; its child processes are those numbered from
  \<open>started s\<close>, and the theorem also says which they are: an apply and a finalize for
  each commit, in the order of the list. (The list need not even be non-empty.)
\<close>

theorem replay_all_clean:
  assumes "\<forall>i < 2 * length cs. exitCode (outputOf env (started s + i)) = 0"
  shows "\<exists>new. cherryPickCommits env cs s =
           (Inr \<lparr>status = success, successfulCommits = cs, failedCommit = None, error = None\<rparr>,
            s\<lparr>started := started s + 2 * length cs, trace := trace s @ new\<rparr>) \<and>
         execCalls new =
           concat (map (\<lambda>c. [(''git'', applyArgs c), (''git'', finalizeArgs c)]) cs)"
  using loop_clean [OF assms, of "[]"] by (simp add: cherryPickCommits_def)

theorem replay_all_clean_witness:
  "exitCode (outputOf (surroundings (\<lambda>n. quietProcess) noInputs) 0) = 0 \<and>
   exitCode (outputOf (surroundings (\<lambda>n. quietProcess) noInputs) 1) = 0 \<and>
   exitCode (outputOf (surroundings (\<lambda>n. quietProcess) noInputs) 2) = 0 \<and>
   exitCode (outputOf (surroundings (\<lambda>n. quietProcess) noInputs) 3) = 0 \<and>
   (\<exists>new. cherryPickCommits (surroundings (\<lambda>n. quietProcess) noInputs)
            [''abc1234'', ''def5678''] initialState =
           (Inr \<lparr>status = success, successfulCommits = [''abc1234'', ''def5678''],
                 failedCommit = None, error = None\<rparr>,
            \<lparr>started = 4, trace = new\<rparr>) \<and>
          execCalls new =
            [(''git'', [''cherry-pick'', ''abc1234'', ''--no-commit'']),
             (''git'', [''commit'', ''-m'', ''Cherry-pick: abc1234'']),
             (''git'', [''cherry-pick'', ''def5678'', ''--no-commit'']),
             (''git'', [''commit'', ''-m'', ''Cherry-pick: def5678''])])"
proof -
  have h: "\<forall>i < 2 * length [''abc1234'', ''def5678''].
      exitCode (outputOf (surroundings (\<lambda>n. quietProcess) noInputs) (started initialState + i)) = 0"
    by simp
  show ?thesis
    using replay_all_clean [OF h]
    by (simp add: initialState_def applyArgs_def finalizeArgs_def)
qed

lemma outputOf_printing [simp]:
  "processes env n = printing out err code \<Longrightarrow> length out \<le> defaultMaxBuffer \<Longrightarrow>
   length err \<le> defaultMaxBuffer \<Longrightarrow>
   outputOf env n = \<lparr>stdout = trim out, stderr = trim err, exitCode = code\<rparr>"
  by (simp add: outputOf_def captured_def printing_def captureStream_def onData_def)

lemma count_clean_calls:
  "count_list (concat (map (\<lambda>c. [(''git'', applyArgs c), (''git'', finalizeArgs c)]) xs))
     (''git'', abortArgs) = 0"
  by (induction xs) (simp_all add: applyArgs_def finalizeArgs_def abortArgs_def)

lemma loop_conflict_at:
  assumes "j < length cs"
    and "\<forall>i < 2 * j. exitCode (outputOf env (started s + i)) = 0"
    and "exitCode (outputOf env (started s + 2 * j)) \<noteq> 0"
    and "stringIncludes (stdout (outputOf env (started s + 2 * j + 1))) ''UU'' \<or>
         stringIncludes (stdout (outputOf env (started s + 2 * j + 1))) ''AA'' \<or>
         stringIncludes (stdout (outputOf env (started s + 2 * j + 1))) ''DD''"
  shows "\<exists>new. cherryPickLoop env cs applied s =
           (Inr \<lparr>status = conflict, successfulCommits = applied @ take j cs,
                 failedCommit = Some (cs ! j),
                 error = Some (''Merge conflict while cherry-picking commit '' @ cs ! j)\<rparr>,
            s\<lparr>started := started s + 2 * j + 3, trace := trace s @ new\<rparr>) \<and>
         execCalls new =
           concat (map (\<lambda>c. [(''git'', applyArgs c), (''git'', finalizeArgs c)]) (take j cs)) @
           [(''git'', applyArgs (cs ! j)), (''git'', statusArgs), (''git'', abortArgs)]"
  using assms
proof (induction j arbitrary: cs applied s)
  case 0
  then obtain c rest where cs: "cs = c # rest" by (cases cs) auto
  have a: "exitCode (outputOf env (started s)) \<noteq> 0" using 0 by simp
  have b: "stringIncludes (stdout (outputOf env (Suc (started s)))) ''UU'' \<or>
         stringIncludes (stdout (outputOf env (Suc (started s)))) ''AA'' \<or>
         stringIncludes (stdout (outputOf env (Suc (started s)))) ''DD''" using 0 by simp
  show ?case
    unfolding cs loop_step_conflict [OF a b]
    by (rule exI [of _ "[Info (''Cherry-picking commit: '' @ c),
          Exec ''git'' (applyArgs c) False True,
          Exec ''git'' statusArgs False True,
          Warning (''Conflict detected while cherry-picking '' @ c),
          Exec ''git'' abortArgs False True]"]) simp
next
  case (Suc j)
  then obtain c rest where cs: "cs = c # rest" by (cases cs) auto
  have a: "exitCode (outputOf env (started s)) = 0"
    using Suc.prems(2) by (auto dest: spec [of _ 0])
  have b: "exitCode (outputOf env (Suc (started s))) = 0 \<or>
         stringIncludes (stdout (outputOf env (Suc (started s)))) ''nothing to commit''"
    using Suc.prems(2) by (auto dest: spec [of _ 1])
  let ?four = "[Info (''Cherry-picking commit: '' @ c),
            Exec ''git'' (applyArgs c) False True,
            Exec ''git'' (finalizeArgs c) False True,
            Info (''Successfully cherry-picked: '' @ c)]"
  let ?s = "s\<lparr>started := started s + 2, trace := trace s @ ?four\<rparr>"
  have j: "j < length rest" using Suc.prems(1) cs by simp
  have clean: "\<forall>i < 2 * j. exitCode (outputOf env (started ?s + i)) = 0"
  proof (intro allI impI)
    fix i assume "i < 2 * j"
    then have "i + 2 < 2 * Suc j" by simp
    with Suc.prems(2) have "exitCode (outputOf env (started s + (i + 2))) = 0" by blast
    then show "exitCode (outputOf env (started ?s + i)) = 0" by (simp add: add.commute add.left_commute)
  qed
  have fails: "exitCode (outputOf env (started ?s + 2 * j)) \<noteq> 0"
    using Suc.prems(3) by (simp add: add.commute add.left_commute)
  have marked: "stringIncludes (stdout (outputOf env (started ?s + 2 * j + 1))) ''UU'' \<or>
         stringIncludes (stdout (outputOf env (started ?s + 2 * j + 1))) ''AA'' \<or>
         stringIncludes (stdout (outputOf env (started ?s + 2 * j + 1))) ''DD''"
    using Suc.prems(4) by (simp add: add.commute add.left_commute)
  from Suc.IH [OF j clean fails marked, of "applied @ [c]"] obtain new where
    run: "cherryPickLoop env rest (applied @ [c]) ?s =
           (Inr \<lparr>status = conflict, successfulCommits = (applied @ [c]) @ take j rest,
                 failedCommit = Some (rest ! j),
                 error = Some (''Merge conflict while cherry-picking commit '' @ rest ! j)\<rparr>,
            ?s\<lparr>started := started ?s + 2 * j + 3, trace := trace ?s @ new\<rparr>)" and
    calls: "execCalls new =
           concat (map (\<lambda>c. [(''git'', applyArgs c), (''git'', finalizeArgs c)]) (take j rest)) @
           [(''git'', applyArgs (rest ! j)), (''git'', statusArgs), (''git'', abortArgs)]"
    by blast
  show ?case
    unfolding cs loop_step_applied [OF a b] run
    by (rule exI [of _ "?four @ new"]) (simp add: calls)
qed


text \<open>
  C2. Let the commit at position \<open>j\<close> (counting from 0, so the \<open>k\<close>-th commit for
  \<open>k = j + 1\<close>) be the first whose apply exits with a code other than 0, every apply
  and finalize step before it exiting with 0, and let the status output then contain one
  of \<open>UU\<close>, \<open>AA\<close>, \<open>DD\<close>. Then the replay returns status \<open>conflict\<close>,
  \<open>successfulCommits\<close> is the first \<open>j\<close> commits, \<open>failedCommit\<close> is the commit at
  position \<open>j\<close>, the error is the fixed message naming it, and the child processes the
  replay started are an apply and a finalize for each of the first \<open>j\<close> commits, then the
  failing apply, the status and the abort, which ends them: the abort is started exactly
  once and no further commit is tried.
\<close>

theorem replay_conflict_at:
  assumes "j < length cs"
    and "\<forall>i < 2 * j. exitCode (outputOf env (started s + i)) = 0"
    and "exitCode (outputOf env (started s + 2 * j)) \<noteq> 0"
    and "stringIncludes (stdout (outputOf env (started s + 2 * j + 1))) ''UU'' \<or>
         stringIncludes (stdout (outputOf env (started s + 2 * j + 1))) ''AA'' \<or>
         stringIncludes (stdout (outputOf env (started s + 2 * j + 1))) ''DD''"
  shows "\<exists>new. cherryPickCommits env cs s =
           (Inr \<lparr>status = conflict, successfulCommits = take j cs,
                 failedCommit = Some (cs ! j),
                 error = Some (''Merge conflict while cherry-picking commit '' @ cs ! j)\<rparr>,
            s\<lparr>started := started s + 2 * j + 3, trace := trace s @ new\<rparr>) \<and>
         execCalls new =
           concat (map (\<lambda>c. [(''git'', applyArgs c), (''git'', finalizeArgs c)]) (take j cs)) @
           [(''git'', applyArgs (cs ! j)), (''git'', statusArgs), (''git'', abortArgs)] \<and>
         count_list (execCalls new) (''git'', abortArgs) = 1"
proof -
  from loop_conflict_at [OF assms, of "[]"] obtain new where
    run: "cherryPickLoop env cs [] s =
           (Inr \<lparr>status = conflict, successfulCommits = [] @ take j cs,
                 failedCommit = Some (cs ! j),
                 error = Some (''Merge conflict while cherry-picking commit '' @ cs ! j)\<rparr>,
            s\<lparr>started := started s + 2 * j + 3, trace := trace s @ new\<rparr>)" and
    calls: "execCalls new =
           concat (map (\<lambda>c. [(''git'', applyArgs c), (''git'', finalizeArgs c)]) (take j cs)) @
           [(''git'', applyArgs (cs ! j)), (''git'', statusArgs), (''git'', abortArgs)]"
    by blast
  have once: "count_list (execCalls new) (''git'', abortArgs) = 1"
    unfolding calls by (simp add: count_clean_calls) (simp add: applyArgs_def statusArgs_def abortArgs_def)
  show ?thesis
    using run calls once by (intro exI [of _ new]) (simp add: cherryPickCommits_def)
qed

lemma conflictAtSecond_outputs:
  "outputOf (surroundings conflictAtSecond ins) n =
     (if n = 2 then \<lparr>stdout = [], stderr = ''error: could not apply def5678'', exitCode = 1\<rparr>
      else if n = 3 then \<lparr>stdout = ''UU src/app.ts'', stderr = [], exitCode = 0\<rparr>
      else \<lparr>stdout = [], stderr = [], exitCode = 0\<rparr>)"
  by (simp add: conflictAtSecond_def defaultMaxBuffer_def trim_def isWhiteSpace_def)

theorem replay_conflict_at_witness:
  "\<exists>new. cherryPickCommits (surroundings conflictAtSecond noInputs) [''abc1234'', ''def5678''] initialState =
           (Inr \<lparr>status = conflict, successfulCommits = [''abc1234''],
                 failedCommit = Some ''def5678'',
                 error = Some ''Merge conflict while cherry-picking commit def5678''\<rparr>,
            \<lparr>started = 5, trace = new\<rparr>) \<and>
         execCalls new =
           [(''git'', [''cherry-pick'', ''abc1234'', ''--no-commit'']),
            (''git'', [''commit'', ''-m'', ''Cherry-pick: abc1234'']),
            (''git'', [''cherry-pick'', ''def5678'', ''--no-commit'']),
            (''git'', [''status'', ''--porcelain'']),
            (''git'', [''cherry-pick'', ''--abort''])] \<and>
         count_list (execCalls new) (''git'', [''cherry-pick'', ''--abort'']) = 1"
proof -
  let ?env = "surroundings conflictAtSecond noInputs"
  let ?cs = "[''abc1234'', ''def5678'']"
  have 1: "1 < length ?cs" by simp
  have 2: "\<forall>i < 2 * 1. exitCode (outputOf ?env (started initialState + i)) = 0"
    by (auto dest!: less_2_cases simp: initialState_def conflictAtSecond_outputs)
  have 3: "exitCode (outputOf ?env (started initialState + 2 * 1)) \<noteq> 0"
    by (simp add: initialState_def conflictAtSecond_outputs)
  have 4: "stringIncludes (stdout (outputOf ?env (started initialState + 2 * 1 + 1))) ''UU'' \<or>
         stringIncludes (stdout (outputOf ?env (started initialState + 2 * 1 + 1))) ''AA'' \<or>
         stringIncludes (stdout (outputOf ?env (started initialState + 2 * 1 + 1))) ''DD''"
    by (simp add: initialState_def conflictAtSecond_outputs)
  show ?thesis
    using replay_conflict_at [OF 1 2 3 4]
    by (simp add: initialState_def applyArgs_def finalizeArgs_def statusArgs_def abortArgs_def)
qed


text \<open>
  C3. Whatever the child processes do, the replay returns a result whose
  \<open>successfulCommits\<close> is a prefix of the input list: the whole list when the status is
  \<open>success\<close>, a strict prefix otherwise (then followed in the input by \<open>failedCommit\<close>).
  The commits the replay tried to apply, in the order it tried them, are exactly
  \<open>successfulCommits\<close> followed by \<open>failedCommit\<close> when there is one: a prefix of
  the input, so none is tried out of order, skipped or tried again.
\<close>

theorem replay_prefix:
  "\<exists>res s'. cherryPickCommits env cs s = (Inr res, s') \<and>
     prefix (successfulCommits res) cs \<and>
     (status res = success \<longrightarrow> successfulCommits res = cs \<and> failedCommit res = None) \<and>
     (status res \<noteq> success \<longrightarrow>
        strict_prefix (successfulCommits res) cs \<and>
        (\<exists>c. failedCommit res = Some c \<and> prefix (successfulCommits res @ [c]) cs)) \<and>
     attemptedCommits (trace s') =
       attemptedCommits (trace s) @ successfulCommits res @
         (case failedCommit res of None \<Rightarrow> [] | Some c \<Rightarrow> [c])"
proof -
  obtain r s' where run: "cherryPickLoop env cs [] s = (r, s')"
    by (cases "cherryPickLoop env cs [] s") blast
  with loop_shape [where env = env and cs = cs and applied = "[]" and s = s] obtain res n where
    r: "r = Inr res" and
    n: "n \<le> length cs" and
    got: "successfulCommits res = take n cs" and
    ok: "status res = success \<longrightarrow> n = length cs \<and> failedCommit res = None \<and> error res = None" and
    ko: "status res \<noteq> success \<longrightarrow> n < length cs \<and> failedCommit res = Some (cs ! n) \<and> error res \<noteq> None" and
    tried: "attemptedCommits (trace s') =
         attemptedCommits (trace s) @ take (if status res = success then n else Suc n) cs"
    by (auto split: sum.splits)
  have pre: "prefix (successfulCommits res) cs"
    by (simp add: got take_is_prefix)
  have full: "status res = success \<longrightarrow> successfulCommits res = cs \<and> failedCommit res = None"
    using ok got by simp
  have part: "status res \<noteq> success \<longrightarrow>
        strict_prefix (successfulCommits res) cs \<and>
        (\<exists>c. failedCommit res = Some c \<and> prefix (successfulCommits res @ [c]) cs)"
  proof
    assume "status res \<noteq> success"
    with ko have lt: "n < length cs" and f: "failedCommit res = Some (cs ! n)" by auto
    have "take n cs \<noteq> cs" using lt by (metis length_take min.absorb2 nat_less_le n)
    then have "strict_prefix (successfulCommits res) cs"
      using pre by (simp add: got strict_prefix_def)
    moreover have "prefix (take n cs @ [cs ! n]) cs"
      using lt by (metis take_Suc_conv_app_nth take_is_prefix)
    ultimately show "strict_prefix (successfulCommits res) cs \<and>
        (\<exists>c. failedCommit res = Some c \<and> prefix (successfulCommits res @ [c]) cs)"
      using f got by simp
  qed
  have order: "attemptedCommits (trace s') =
       attemptedCommits (trace s) @ successfulCommits res @
         (case failedCommit res of None \<Rightarrow> [] | Some c \<Rightarrow> [c])"
  proof (cases "status res = success")
    case True
    with ok tried got show ?thesis by simp
  next
    case False
    with ko have lt: "n < length cs" and f: "failedCommit res = Some (cs ! n)" by auto
    from False tried have "attemptedCommits (trace s') = attemptedCommits (trace s) @ take (Suc n) cs"
      by simp
    then show ?thesis
      using lt f got by (simp add: take_Suc_conv_app_nth)
  qed
  show ?thesis
    using run r pre full part order
    by (intro exI [of _ res] exI [of _ s']) (simp add: cherryPickCommits_def)
qed

theorem replay_prefix_witness:
  "\<exists>res s'. cherryPickCommits (surroundings conflictAtSecond noInputs) [''abc1234'', ''def5678''] initialState =
       (Inr res, s') \<and>
     status res = conflict \<and>
     successfulCommits res = [''abc1234''] \<and>
     strict_prefix (successfulCommits res) [''abc1234'', ''def5678''] \<and>
     attemptedCommits (trace s') = [''abc1234'', ''def5678'']"
proof -
  let ?env = "surroundings conflictAtSecond noInputs"
  let ?cs = "[''abc1234'', ''def5678'']"
  obtain res s' where
    run: "cherryPickCommits ?env ?cs initialState = (Inr res, s')" and
    ko: "status res \<noteq> success \<longrightarrow> strict_prefix (successfulCommits res) ?cs" and
    tried: "attemptedCommits (trace s') =
       attemptedCommits (trace initialState) @ successfulCommits res @
         (case failedCommit res of None \<Rightarrow> [] | Some c \<Rightarrow> [c])"
    using replay_prefix [of ?env ?cs initialState] by blast
  have eval: "fst (cherryPickCommits ?env ?cs initialState) =
      Inr \<lparr>status = conflict, successfulCommits = [''abc1234''], failedCommit = Some ''def5678'',
           error = Some ''Merge conflict while cherry-picking commit def5678''\<rparr>"
    by (simp add: cherryPickCommits_def initialState_def conflictAtSecond_outputs ret_def)
  with run have res: "res = \<lparr>status = conflict, successfulCommits = [''abc1234''],
        failedCommit = Some ''def5678'',
        error = Some ''Merge conflict while cherry-picking commit def5678''\<rparr>"
    by simp
  show ?thesis
    using run ko tried unfolding res
    by (intro exI [of _ res] exI [of _ s']) (simp add: res initialState_def)
qed


text \<open>
  C4. In any iteration of the loop whose apply step exits with 0: when the finalize step
  fails and its output contains \<open>nothing to commit\<close>, the iteration ends like a clean one,
  the loop goes on with the remaining commits and the commit added to
  \<open>successfulCommits\<close>, where it stays in the result; when the finalize step fails and its
  output does not contain that text, the replay returns status \<open>failed\<close> at once, with
  \<open>successfulCommits\<close> as it was before this commit and an error made of the standard
  error of the finalize step.
\<close>

theorem finalize_step:
  assumes "exitCode (outputOf env (started s)) = 0"
  shows "(exitCode (outputOf env (Suc (started s))) \<noteq> 0 \<and>
          stringIncludes (stdout (outputOf env (Suc (started s)))) ''nothing to commit'' \<longrightarrow>
            cherryPickLoop env (c # rest) applied s =
              cherryPickLoop env rest (applied @ [c])
                (s\<lparr>started := started s + 2,
                   trace := trace s @
                     [Info (''Cherry-picking commit: '' @ c),
                      Exec ''git'' (applyArgs c) False True,
                      Exec ''git'' (finalizeArgs c) False True,
                      Info (''Successfully cherry-picked: '' @ c)]\<rparr>) \<and>
            (\<exists>res s'. cherryPickLoop env (c # rest) applied s = (Inr res, s') \<and>
               prefix (applied @ [c]) (successfulCommits res))) \<and>
         (exitCode (outputOf env (Suc (started s))) \<noteq> 0 \<and>
          \<not> stringIncludes (stdout (outputOf env (Suc (started s)))) ''nothing to commit'' \<longrightarrow>
            cherryPickLoop env (c # rest) applied s =
              (Inr \<lparr>status = failed, successfulCommits = applied, failedCommit = Some c,
                    error = Some (''Failed to commit cherry-pick: '' @
                                  stderr (outputOf env (Suc (started s))))\<rparr>,
               s\<lparr>started := started s + 2,
                 trace := trace s @
                   [Info (''Cherry-picking commit: '' @ c),
                    Exec ''git'' (applyArgs c) False True,
                    Exec ''git'' (finalizeArgs c) False True]\<rparr>))"
proof (intro conjI impI)
  let ?s = "s\<lparr>started := started s + 2,
                   trace := trace s @
                     [Info (''Cherry-picking commit: '' @ c),
                      Exec ''git'' (applyArgs c) False True,
                      Exec ''git'' (finalizeArgs c) False True,
                      Info (''Successfully cherry-picked: '' @ c)]\<rparr>"
  assume tolerated: "exitCode (outputOf env (Suc (started s))) \<noteq> 0 \<and>
          stringIncludes (stdout (outputOf env (Suc (started s)))) ''nothing to commit''"
  then have b: "exitCode (outputOf env (Suc (started s))) = 0 \<or>
         stringIncludes (stdout (outputOf env (Suc (started s)))) ''nothing to commit''"
    by simp
  show step: "cherryPickLoop env (c # rest) applied s = cherryPickLoop env rest (applied @ [c]) ?s"
    by (rule loop_step_applied [OF assms b])
  obtain r s' where run: "cherryPickLoop env rest (applied @ [c]) ?s = (r, s')"
    by (cases "cherryPickLoop env rest (applied @ [c]) ?s") blast
  with loop_shape [where env = env and cs = rest and applied = "applied @ [c]" and s = ?s]
  obtain res n where "r = Inr res" "successfulCommits res = (applied @ [c]) @ take n rest"
    by (auto split: sum.splits)
  then show "\<exists>res s'. cherryPickLoop env (c # rest) applied s = (Inr res, s') \<and>
               prefix (applied @ [c]) (successfulCommits res)"
    unfolding step run by (metis prefixI)
next
  assume "exitCode (outputOf env (Suc (started s))) \<noteq> 0 \<and>
          \<not> stringIncludes (stdout (outputOf env (Suc (started s)))) ''nothing to commit''"
  then show "cherryPickLoop env (c # rest) applied s =
              (Inr \<lparr>status = failed, successfulCommits = applied, failedCommit = Some c,
                    error = Some (''Failed to commit cherry-pick: '' @
                                  stderr (outputOf env (Suc (started s))))\<rparr>,
               s\<lparr>started := started s + 2,
                 trace := trace s @
                   [Info (''Cherry-picking commit: '' @ c),
                    Exec ''git'' (applyArgs c) False True,
                    Exec ''git'' (finalizeArgs c) False True]\<rparr>)"
    using loop_step_finalize_failed [OF assms] by blast
qed

lemma nothingToCommit_outputs:
  "outputOf (surroundings nothingToCommit ins) n =
     (if n = 1 then \<lparr>stdout = ''nothing to commit, working tree clean'', stderr = [], exitCode = 1\<rparr>
      else \<lparr>stdout = [], stderr = [], exitCode = 0\<rparr>)"
  by (simp add: nothingToCommit_def defaultMaxBuffer_def trim_def isWhiteSpace_def)

lemma hookRejects_outputs:
  "outputOf (surroundings hookRejects ins) n =
     (if n = 1 then \<lparr>stdout = ''On branch cherrypick'', stderr = ''pre-commit hook failed'', exitCode = 1\<rparr>
      else \<lparr>stdout = [], stderr = [], exitCode = 0\<rparr>)"
  by (simp add: hookRejects_def defaultMaxBuffer_def trim_def isWhiteSpace_def)

theorem finalize_step_witness:
  "fst (cherryPickCommits (surroundings nothingToCommit noInputs) [''abc1234'', ''def5678''] initialState) =
     Inr \<lparr>status = success, successfulCommits = [''abc1234'', ''def5678''],
          failedCommit = None, error = None\<rparr> \<and>
   fst (cherryPickCommits (surroundings hookRejects noInputs) [''abc1234'', ''def5678''] initialState) =
     Inr \<lparr>status = failed, successfulCommits = [], failedCommit = Some ''abc1234'',
          error = Some ''Failed to commit cherry-pick: pre-commit hook failed''\<rparr>"
proof -
  let ?d = "surroundings nothingToCommit noInputs"
  let ?h = "surroundings hookRejects noInputs"
  have d0: "exitCode (outputOf ?d (started initialState)) = 0"
    by (simp add: initialState_def nothingToCommit_outputs)
  have d1: "exitCode (outputOf ?d (Suc (started initialState))) \<noteq> 0 \<and>
          stringIncludes (stdout (outputOf ?d (Suc (started initialState)))) ''nothing to commit''"
    by (simp add: initialState_def nothingToCommit_outputs)
  have h0: "exitCode (outputOf ?h (started initialState)) = 0"
    by (simp add: initialState_def hookRejects_outputs)
  have h1: "exitCode (outputOf ?h (Suc (started initialState))) \<noteq> 0 \<and>
          \<not> stringIncludes (stdout (outputOf ?h (Suc (started initialState)))) ''nothing to commit''"
    by (simp add: initialState_def hookRejects_outputs)
  have "fst (cherryPickLoop ?d [''abc1234'', ''def5678''] [] initialState) =
     Inr \<lparr>status = success, successfulCommits = [''abc1234'', ''def5678''],
          failedCommit = None, error = None\<rparr>"
    using finalize_step [OF d0, of "''abc1234''" "[''def5678'']" "[]"] d1
    by (simp add: initialState_def nothingToCommit_outputs ret_def)
  moreover have "fst (cherryPickLoop ?h [''abc1234'', ''def5678''] [] initialState) =
     Inr \<lparr>status = failed, successfulCommits = [], failedCommit = Some ''abc1234'',
          error = Some ''Failed to commit cherry-pick: pre-commit hook failed''\<rparr>"
    using finalize_step [OF h0, of "''abc1234''" "[''def5678'']" "[]"] h1
    by (simp add: initialState_def hookRejects_outputs)
  ultimately show ?thesis
    by (simp add: cherryPickCommits_def)
qed

text \<open>
  C9. In any iteration of the loop whose apply step exits with a code other than 0, the
  result is a \<open>conflict\<close> exactly when the status output contains \<open>UU\<close>, \<open>AA\<close> or
  \<open>DD\<close> somewhere, at any place in the text; otherwise it is \<open>failed\<close> with, as
  error, the standard error of the apply step when that is not empty and its standard
  output when it is. The example after it has an untracked file named \<open>AAA.txt\<close> read as a
  conflict.
\<close>

theorem apply_failure_classified:
  assumes "exitCode (outputOf env (started s)) \<noteq> 0"
  shows "\<exists>res s'. cherryPickLoop env (c # rest) applied s = (Inr res, s') \<and>
           (status res = conflict \<longleftrightarrow>
              (\<exists>p q. stdout (outputOf env (Suc (started s))) = p @ ''UU'' @ q) \<or>
              (\<exists>p q. stdout (outputOf env (Suc (started s))) = p @ ''AA'' @ q) \<or>
              (\<exists>p q. stdout (outputOf env (Suc (started s))) = p @ ''DD'' @ q)) \<and>
           (status res \<noteq> conflict \<longrightarrow>
              status res = failed \<and>
              error res = Some (if stderr (outputOf env (started s)) \<noteq> []
                                then stderr (outputOf env (started s))
                                else stdout (outputOf env (started s)))) \<and>
           successfulCommits res = applied \<and> failedCommit res = Some c"
proof (cases "stringIncludes (stdout (outputOf env (Suc (started s)))) ''UU'' \<or>
         stringIncludes (stdout (outputOf env (Suc (started s)))) ''AA'' \<or>
         stringIncludes (stdout (outputOf env (Suc (started s)))) ''DD''")
  case True
  show ?thesis
    unfolding loop_step_conflict [OF assms True]
    using True by (simp add: stringIncludes_iff)
next
  case False
  show ?thesis
    unfolding loop_step_failed [OF assms False]
    using False by (simp add: stringIncludes_iff orElse_def)
qed

lemma badObject_outputs:
  "outputOf (surroundings badObject ins) n =
     (if n = 0 then \<lparr>stdout = [], stderr = ''fatal: bad revision'', exitCode = 128\<rparr>
      else if n = 1 then \<lparr>stdout = ''?? docs/AAA.txt'', stderr = [], exitCode = 0\<rparr>
      else \<lparr>stdout = [], stderr = [], exitCode = 0\<rparr>)"
  by (simp add: badObject_def defaultMaxBuffer_def trim_def isWhiteSpace_def)

lemma applyFailsOnStdout_outputs:
  "outputOf (surroundings applyFailsOnStdout ins) n =
     (if n = 0 then \<lparr>stdout = ''cherry-pick is not possible'', stderr = [], exitCode = 128\<rparr>
      else \<lparr>stdout = [], stderr = [], exitCode = 0\<rparr>)"
  by (simp add: applyFailsOnStdout_def defaultMaxBuffer_def trim_def isWhiteSpace_def)

theorem apply_failure_classified_witness:
  "(\<exists>res s'. cherryPickLoop (surroundings badObject noInputs) [''0000000''] [] initialState = (Inr res, s') \<and>
      stdout (outputOf (surroundings badObject noInputs) 1) = ''?? docs/'' @ ''AA'' @ ''A.txt'' \<and>
      status res = conflict) \<and>
   (\<exists>res s'. cherryPickLoop (surroundings applyFailsOnStdout noInputs) [''0000000''] [] initialState = (Inr res, s') \<and>
      status res = failed \<and> error res = Some ''cherry-pick is not possible'')"
proof -
  let ?b = "surroundings badObject noInputs"
  let ?q = "surroundings applyFailsOnStdout noInputs"
  have b0: "exitCode (outputOf ?b (started initialState)) \<noteq> 0"
    by (simp add: initialState_def badObject_outputs)
  have q0: "exitCode (outputOf ?q (started initialState)) \<noteq> 0"
    by (simp add: initialState_def applyFailsOnStdout_outputs)
  have path: "stdout (outputOf ?b 1) = ''?? docs/'' @ ''AA'' @ ''A.txt''"
    by (simp add: badObject_outputs)
  then have marked: "\<exists>p q. stdout (outputOf ?b (Suc (started initialState))) = p @ ''AA'' @ q"
    unfolding initialState_def by (simp del: append.simps) blast
  have clean: "\<not> ((\<exists>p q. stdout (outputOf ?q (Suc (started initialState))) = p @ ''UU'' @ q) \<or>
              (\<exists>p q. stdout (outputOf ?q (Suc (started initialState))) = p @ ''AA'' @ q) \<or>
              (\<exists>p q. stdout (outputOf ?q (Suc (started initialState))) = p @ ''DD'' @ q))"
    by (simp add: initialState_def applyFailsOnStdout_outputs)
  have first: "\<exists>res s'. cherryPickLoop ?b [''0000000''] [] initialState = (Inr res, s') \<and>
      stdout (outputOf ?b 1) = ''?? docs/'' @ ''AA'' @ ''A.txt'' \<and> status res = conflict"
    using apply_failure_classified [OF b0, of "''0000000''" "[]" "[]"] marked path by blast
  have second: "\<exists>res s'. cherryPickLoop ?q [''0000000''] [] initialState = (Inr res, s') \<and>
      status res = failed \<and> error res = Some ''cherry-pick is not possible''"
    using apply_failure_classified [OF q0, of "''0000000''" "[]" "[]"] clean
    by (auto simp: initialState_def applyFailsOnStdout_outputs)
  show ?thesis using first second by blast
qed

section \<open>The run around the replay\<close>

lemma emitsOnly_ret [intro!, simp]: "emitsOnly P (ret x)"
  by (simp add: emitsOnly_def ret_def)

lemma emitsOnly_throw [intro!, simp]: "emitsOnly P (throw e)"
  by (simp add: emitsOnly_def throw_def)

lemma emitsOnly_emit [intro!]: "P e \<Longrightarrow> emitsOnly P (emit e)"
  by (simp add: emitsOnly_def emit_def)

lemma emitsOnly_info [intro!]: "P (Info m) \<Longrightarrow> emitsOnly P (info m)"
  by (simp add: info_def emitsOnly_emit)

lemma emitsOnly_warning [intro!]: "P (Warning m) \<Longrightarrow> emitsOnly P (warning m)"
  by (simp add: warning_def emitsOnly_emit)

lemma emitsOnly_execCommand [intro!]:
  "(\<And>a b. P (Exec command args a b)) \<Longrightarrow> emitsOnly P (execCommand env command args options)"
  by (simp add: emitsOnly_def execCommand_def Let_def)

lemma emitsOnly_thenDo [intro!]:
  assumes "emitsOnly P m" and "\<And>x. emitsOnly P (f x)"
  shows "emitsOnly P (thenDo m f)"
  unfolding emitsOnly_def
proof
  fix s
  from assms(1) obtain new where m: "trace (snd (m s)) = trace s @ new" "list_all P new"
    unfolding emitsOnly_def by blast
  show "\<exists>new. trace (snd (thenDo m f s)) = trace s @ new \<and> list_all P new"
  proof (cases "m s")
    case (Pair r s')
    show ?thesis
    proof (cases r)
      case (Inl e)
      with Pair m show ?thesis by (auto simp: thenDo_def)
    next
      case (Inr x)
      from assms(2) [of x] obtain new' where
        f: "trace (snd (f x s')) = trace s' @ new'" "list_all P new'"
        unfolding emitsOnly_def by blast
      with Pair Inr m have "trace (snd (thenDo m f s)) = trace s @ (new @ new')" "list_all P (new @ new')"
        by (auto simp: thenDo_def)
      then show ?thesis by blast
    qed
  qed
qed

lemma emitsOnly_input [intro!, simp]: "emitsOnly P (input env name required)"
  by (simp add: input_def split: sum.split)

lemma notPublishing_simps [simp]:
  "notPublishing (Info m)" "notPublishing (Warning m)" "notPublishing (SetOutput k v)"
  "notPublishing (SetSecret t)" "notPublishing (SetFailed m)" "notPublishing (PrintHeader i)"
  "notPublishing (PrintSummary i b r pr)" "notPublishing (AddLabels ow re n ls)"
  "\<not> notPublishing (PullsCreate ow re t bo h ba d)"
  "notPublishing (Exec command args x y) \<longleftrightarrow> \<not> (command = ''git'' \<and> take 1 args = [''push''])"
  by (simp_all add: notPublishing_def)

lemma emitsOnly_cherryPickLoop: "emitsOnly notPublishing (cherryPickLoop env cs applied)"
  by (induction cs arbitrary: applied)
     (auto simp: applyArgs_def statusArgs_def abortArgs_def finalizeArgs_def Let_def)

lemma emitsOnly_cherryPickCommits: "emitsOnly notPublishing (cherryPickCommits env cs)"
  unfolding cherryPickCommits_def [abs_def] by (rule emitsOnly_cherryPickLoop)

lemma emitsOnly_readInputs: "emitsOnly P (readInputs env)"
  unfolding readInputs_def by (intro emitsOnly_thenDo emitsOnly_input) auto

lemma emitsOnly_chooseBranchName: "emitsOnly P (chooseBranchName env inputs)"
  by (simp add: chooseBranchName_def split: sum.split)

lemma emitsOnly_configureGit: "emitsOnly notPublishing (configureGit env n e)"
  unfolding configureGit_def by auto

lemma emitsOnly_fetchBranch: "emitsOnly notPublishing (fetchBranch env b)"
  unfolding fetchBranch_def by auto

lemma emitsOnly_createBranch: "emitsOnly notPublishing (createBranch env b t)"
  unfolding createBranch_def by auto

lemma emitsOnly_runSetup: "emitsOnly notPublishing (runSetup env)"
  unfolding runSetup_def
  by (auto intro!: emitsOnly_readInputs emitsOnly_chooseBranchName emitsOnly_configureGit
        emitsOnly_fetchBranch emitsOnly_createBranch)


lemma emitsOnly_getCommitMessage: "emitsOnly (\<lambda>e. True) (getCommitMessage env c)"
  unfolding getCommitMessage_def by auto

lemma emitsOnly_appendCommitLines: "emitsOnly (\<lambda>e. True) (appendCommitLines env cs body)"
  by (induction cs arbitrary: body) (auto intro!: emitsOnly_getCommitMessage)

lemma emitsOnly_pushBranch: "emitsOnly (\<lambda>e. True) (pushBranch env b)"
  unfolding pushBranch_def by auto

lemma emitsOnly_createPullRequest: "emitsOnly (\<lambda>e. True) (createPullRequest env inputs b r)"
  unfolding createPullRequest_def
  by (auto intro!: emitsOnly_getCommitMessage emitsOnly_appendCommitLines
        split: option.split sum.split prod.split)

lemma emitsOnly_publish:
  "emitsOnly (\<lambda>e. True)
     (thenDo (pushBranch env b) (\<lambda>_.
      thenDo (createPullRequest env inputs b r) (\<lambda>pr.
      thenDo (emit (SetOutput ''pr-url'' (fst pr))) (\<lambda>_.
      thenDo (emit (SetOutput ''pr-number'' (showNat (snd pr)))) (\<lambda>_.
      thenDo (emit (PrintSummary inputs b r (Some pr))) (\<lambda>_.
      thenDo (info ''Cherry-pick and PR creation completed successfully!'') (\<lambda>_.
        ret ())))))))"
  by (auto intro!: emitsOnly_pushBranch emitsOnly_createPullRequest)

text \<open>What \<open>run\<close> does once the replay has returned a result that is not a success.\<close>

lemma runFinish_failed:
  "status r = failed \<Longrightarrow>
   runFinish env inputs b r s =
     (Inl (Error (''Cherry-pick failed: '' @ optText (error r))),
      s\<lparr>trace := trace s @
         [SetOutput ''cherry-pick-status'' ''failed'', SetOutput ''branch-name'' b,
          PrintSummary inputs b r None]\<rparr>)"
  by (simp add: runFinish_def throw_def)

lemma runFinish_conflict:
  "status r = conflict \<Longrightarrow>
   runFinish env inputs b r s =
     (Inr (),
      s\<lparr>trace := trace s @
         [SetOutput ''cherry-pick-status'' ''conflict'', SetOutput ''branch-name'' b,
          PrintSummary inputs b r None,
          Warning ''Cherry-pick had conflicts. Manual intervention required.'',
          SetFailed (''Merge conflict while cherry-picking commit '' @ optText (failedCommit r))]\<rparr>)"
  by (simp add: runFinish_def ret_def)

lemma runFinish_outputs:
  "\<exists>rest. trace (snd (runFinish env inputs b r s)) =
     trace s @ [SetOutput ''cherry-pick-status'' (statusText (status r)), SetOutput ''branch-name'' b] @ rest"
proof (cases "status r")
  case success
  from emitsOnly_publish [of env b inputs r] obtain new where
    "trace (snd ((thenDo (pushBranch env b) (\<lambda>_.
      thenDo (createPullRequest env inputs b r) (\<lambda>pr.
      thenDo (emit (SetOutput ''pr-url'' (fst pr))) (\<lambda>_.
      thenDo (emit (SetOutput ''pr-number'' (showNat (snd pr)))) (\<lambda>_.
      thenDo (emit (PrintSummary inputs b r (Some pr))) (\<lambda>_.
      thenDo (info ''Cherry-pick and PR creation completed successfully!'') (\<lambda>_.
        ret ())))))))
       (s\<lparr>trace := trace s @ [SetOutput ''cherry-pick-status'' ''success'', SetOutput ''branch-name'' b]\<rparr>))) =
     trace (s\<lparr>trace := trace s @ [SetOutput ''cherry-pick-status'' ''success'', SetOutput ''branch-name'' b]\<rparr>) @ new"
    unfolding emitsOnly_def by blast
  then show ?thesis
    using success by (simp add: runFinish_def)
next
  case conflict
  then show ?thesis by (simp add: runFinish_conflict)
next
  case failed
  then show ?thesis by (simp add: runFinish_failed)
qed

lemma replay_returns:
  "\<exists>r s2 new. cherryPickCommits env cs s1 = (Inr r, s2) \<and> trace s2 = trace s1 @ new \<and>
     list_all notPublishing new"
proof -
  obtain x s2 where run: "cherryPickCommits env cs s1 = (x, s2)"
    by (cases "cherryPickCommits env cs s1") blast
  with loop_shape [where env = env and cs = cs and applied = "[]" and s = s1]
  obtain r where "x = Inr r"
    by (auto simp: cherryPickCommits_def split: sum.splits)
  moreover from emitsOnly_cherryPickCommits [of env cs] run obtain new where
    "trace s2 = trace s1 @ new" "list_all notPublishing new"
    unfolding emitsOnly_def by (metis snd_conv)
  ultimately show ?thesis using run by blast
qed

lemma run_after_replay:
  assumes "runSetup env s = (Inr (inputs, b), s1)"
    and "cherryPickCommits env (commits inputs) s1 = (Inr r, s2)"
  shows "run env s =
    (case runFinish env inputs b r s2 of
        (Inr _, s') \<Rightarrow> s'
      | (Inl (Error message), s') \<Rightarrow> s'\<lparr>trace := trace s' @ [SetFailed message]\<rparr>
      | (Inl NonError, s') \<Rightarrow> s'\<lparr>trace := trace s' @ [SetFailed ''Unknown error occurred'']\<rparr>)"
  using assms by (simp add: run_def runBody_def thenDo_def)

lemma run_setup_throws:
  assumes "runSetup env s = (Inl e, s1)"
  shows "trace (run env s) =
    trace s1 @ [SetFailed (case e of Error message \<Rightarrow> message | NonError \<Rightarrow> ''Unknown error occurred'')]"
  using assms by (simp add: run_def runBody_def thenDo_def split: exn.split)


lemma run_trace_after_finish:
  assumes "runSetup env s = (Inr (inputs, b), s1)"
    and "cherryPickCommits env (commits inputs) s1 = (Inr r, s2)"
  shows "\<exists>tail. trace (run env s) = trace (snd (runFinish env inputs b r s2)) @ tail"
  unfolding run_after_replay [OF assms]
  by (cases "runFinish env inputs b r s2") (auto split: sum.split exn.split)

text \<open>
  C5. In every run, whatever the surroundings do: if the run starts a push or asks the
  platform to create a pull request, then the setup has succeeded and the replay has
  returned status \<open>success\<close>. And when the replay returns \<open>conflict\<close> or \<open>failed\<close>, the
  run starts no push and creates no pull request; after the replay it only sets the two
  outputs, prints the summary and fails the run (with a warning before, for a conflict).
\<close>

theorem publish_only_after_success:
  "\<exists>new. trace (run env s) = trace s @ new \<and>
     (\<not> list_all notPublishing new \<longrightarrow>
        (\<exists>inputs b s1 r s2. runSetup env s = (Inr (inputs, b), s1) \<and>
           cherryPickCommits env (commits inputs) s1 = (Inr r, s2) \<and> status r = success)) \<and>
     (\<forall>inputs b s1 r s2. runSetup env s = (Inr (inputs, b), s1) \<and>
           cherryPickCommits env (commits inputs) s1 = (Inr r, s2) \<and> status r \<noteq> success \<longrightarrow>
        list_all notPublishing new \<and>
        trace (run env s) =
          trace s2 @
          [SetOutput ''cherry-pick-status'' (statusText (status r)), SetOutput ''branch-name'' b,
           PrintSummary inputs b r None] @
          (if status r = conflict then
             [Warning ''Cherry-pick had conflicts. Manual intervention required.'',
              SetFailed (''Merge conflict while cherry-picking commit '' @ optText (failedCommit r))]
           else [SetFailed (''Cherry-pick failed: '' @ optText (error r))]))"
proof -
  obtain x s1 where prep: "runSetup env s = (x, s1)"
    by (cases "runSetup env s") blast
  from emitsOnly_runSetup [of env] have
    "\<exists>new. trace (snd (runSetup env s)) = trace s @ new \<and> list_all notPublishing new"
    unfolding emitsOnly_def by (rule spec)
  then obtain new0 where
    new0: "trace s1 = trace s @ new0" "list_all notPublishing new0"
    unfolding prep by auto
  show ?thesis
  proof (cases x)
    case (Inl e)
    let ?new = "new0 @ [SetFailed (case e of Error message \<Rightarrow> message | NonError \<Rightarrow> ''Unknown error occurred'')]"
    have "trace (run env s) = trace s @ ?new"
      using run_setup_throws [of env s e s1] prep Inl new0 by simp
    moreover have "list_all notPublishing ?new"
      using new0 by simp
    ultimately show ?thesis
      using prep Inl by (intro exI [of _ ?new]) simp
  next
    case (Inr p)
    obtain inputs b where p: "p = (inputs, b)" by (cases p)
    have ready: "runSetup env s = (Inr (inputs, b), s1)"
      using prep Inr p by simp
    from replay_returns [of env "commits inputs" s1] obtain r s2 new1 where
      replay: "cherryPickCommits env (commits inputs) s1 = (Inr r, s2)" and
      new1: "trace s2 = trace s1 @ new1" "list_all notPublishing new1"
      by blast
    note after = run_after_replay [OF ready replay]
    show ?thesis
    proof (cases "status r")
      case success
      from runFinish_outputs [of env inputs b r s2] obtain rest where
        fin: "trace (snd (runFinish env inputs b r s2)) =
          trace s2 @ [SetOutput ''cherry-pick-status'' (statusText (status r)), SetOutput ''branch-name'' b] @ rest"
        by blast
      from run_trace_after_finish [OF ready replay] obtain tail where
        tail: "trace (run env s) = trace (snd (runFinish env inputs b r s2)) @ tail"
        by blast
      let ?new = "new0 @ new1 @
            [SetOutput ''cherry-pick-status'' (statusText (status r)), SetOutput ''branch-name'' b] @
            rest @ tail"
      have tr: "trace (run env s) = trace s @ ?new"
        using new0 new1 fin tail by simp
      have ok: "\<exists>inputs b s1 r s2. runSetup env s = (Inr (inputs, b), s1) \<and>
           cherryPickCommits env (commits inputs) s1 = (Inr r, s2) \<and> status r = success"
        using ready replay success by (intro exI conjI)
      show ?thesis
        using tr ok ready replay success by (intro exI [of _ ?new]) simp
    next
      case conflict
      let ?end = "[SetOutput ''cherry-pick-status'' ''conflict'', SetOutput ''branch-name'' b,
          PrintSummary inputs b r None,
          Warning ''Cherry-pick had conflicts. Manual intervention required.'',
          SetFailed (''Merge conflict while cherry-picking commit '' @ optText (failedCommit r))]"
      have tr: "trace (run env s) = trace s2 @ ?end"
        unfolding after runFinish_conflict [OF conflict] by simp
      then have "trace (run env s) = trace s @ (new0 @ new1 @ ?end)"
        using new0 new1 by simp
      moreover have "list_all notPublishing (new0 @ new1 @ ?end)"
        using new0 new1 by simp
      ultimately show ?thesis
        using ready replay conflict tr
        by (intro exI [of _ "new0 @ new1 @ ?end"]) simp
    next
      case failed
      let ?end = "[SetOutput ''cherry-pick-status'' ''failed'', SetOutput ''branch-name'' b,
          PrintSummary inputs b r None,
          SetFailed (''Cherry-pick failed: '' @ optText (error r))]"
      have tr: "trace (run env s) = trace s2 @ ?end"
        unfolding after runFinish_failed [OF failed] by simp
      then have "trace (run env s) = trace s @ (new0 @ new1 @ ?end)"
        using new0 new1 by simp
      moreover have "list_all notPublishing (new0 @ new1 @ ?end)"
        using new0 new1 by simp
      ultimately show ?thesis
        using ready replay failed tr
        by (intro exI [of _ "new0 @ new1 @ ?end"]) simp
    qed
  qed
qed

text \<open>
  C6. In every run whose setup succeeds, the replay returns, and the first two things the
  run does next are to set the output \<open>cherry-pick-status\<close> to the status of the replay
  and the output \<open>branch-name\<close> to the name of the branch. Nothing before them is a push
  or the creation of a pull request, and whatever the run does or suffers afterwards
  (\<open>rest\<close>), both stay in its trace. In the example after it the push is refused.
\<close>

theorem outputs_follow_replay:
  assumes "runSetup env s = (Inr (inputs, b), s1)"
  shows "\<exists>r s2 before rest.
           cherryPickCommits env (commits inputs) s1 = (Inr r, s2) \<and>
           trace s2 = trace s @ before \<and> list_all notPublishing before \<and>
           trace (run env s) =
             trace s2 @
             [SetOutput ''cherry-pick-status'' (statusText (status r)),
              SetOutput ''branch-name'' b] @ rest"
proof -
  from emitsOnly_runSetup [of env] have
    "\<exists>new. trace (snd (runSetup env s)) = trace s @ new \<and> list_all notPublishing new"
    unfolding emitsOnly_def by (rule spec)
  then obtain new0 where
    new0: "trace s1 = trace s @ new0" "list_all notPublishing new0"
    unfolding assms by auto
  from replay_returns [of env "commits inputs" s1] obtain r s2 new1 where
    replay: "cherryPickCommits env (commits inputs) s1 = (Inr r, s2)" and
    new1: "trace s2 = trace s1 @ new1" "list_all notPublishing new1"
    by blast
  from runFinish_outputs [of env inputs b r s2] obtain rest where
    fin: "trace (snd (runFinish env inputs b r s2)) =
      trace s2 @ [SetOutput ''cherry-pick-status'' (statusText (status r)), SetOutput ''branch-name'' b] @ rest"
    by blast
  from run_trace_after_finish [OF assms replay] obtain tail where
    tail: "trace (run env s) = trace (snd (runFinish env inputs b r s2)) @ tail"
    by blast
  have "trace s2 = trace s @ (new0 @ new1)" "list_all notPublishing (new0 @ new1)"
    using new0 new1 by simp_all
  moreover have "trace (run env s) =
      trace s2 @ [SetOutput ''cherry-pick-status'' (statusText (status r)), SetOutput ''branch-name'' b] @
      (rest @ tail)"
    using fin tail by simp
  ultimately show ?thesis
    using replay by (intro exI [of _ r] exI [of _ s2] exI [of _ "new0 @ new1"] exI [of _ "rest @ tail"]) simp
qed


lemma thenDo_assoc [simp]: "thenDo (thenDo m f) g = thenDo m (\<lambda>x. thenDo (f x) g)"
  by (rule ext) (simp add: thenDo_def split: prod.split sum.split)

lemma outputOf_afterSetup [simp]:
  "outputOf (surroundings (afterSetup ps) ins) n =
     (if n < 5 then \<lparr>stdout = [], stderr = [], exitCode = 0\<rparr> else outputOf (surroundings ps ins) (n - 5))"
  by (simp add: afterSetup_def outputOf_def quietProcess_def captured_def captureStream_def trim_def)

lemma getInput_surroundings [simp]: "getInput (surroundings ps ins) name required = Inr (ins name)"
  by (simp add: surroundings_def)

lemma surroundings_fields [simp]:
  "envRepository (surroundings ps ins) = ''flxbl-io/demo''"
  "now (surroundings ps ins) = 1700000000000"
  "getOctokit (surroundings ps ins) t = None"
  "pullsCreate (surroundings ps ins) = Inr (''https://github.com/flxbl-io/demo/pull/7'', 7)"
  "addLabels (surroundings ps ins) = None"
  by (simp_all add: surroundings_def)

lemma scenario_readInputs:
  "readInputs (surroundings ps (scenarioInputs cl)) s =
     (Inr \<lparr>commits = splitAndTrim cl,
           targetBranch = ''release/1.0'', newBranch = [], prTitle = [],
           prBody = [], ghToken = ''token'', repository = ''flxbl-io/demo'',
           authorName = ''github-actions[bot]'',
           authorEmail = ''github-actions[bot]@users.noreply.github.com'',
           draft = False, labels = []\<rparr>, s)"
  by (simp add: readInputs_def input_def scenarioInputs_def orElse_def ret_def)

lemma showNat_now: "showNat 1700000000000 = ''1700000000000''"
  by (simp add: showNat.simps digitChar_def)

lemma scenario_setup:
  assumes "splitAndTrim cl = c # rest" and "c \<noteq> [] \<or> rest \<noteq> []"
  shows "\<exists>s1. runSetup (surroundings (afterSetup ps) (scenarioInputs cl)) initialState =
     (Inr (\<lparr>commits = c # rest,
           targetBranch = ''release/1.0'', newBranch = [], prTitle = [],
           prBody = [], ghToken = ''token'', repository = ''flxbl-io/demo'',
           authorName = ''github-actions[bot]'',
           authorEmail = ''github-actions[bot]@users.noreply.github.com'',
           draft = False, labels = []\<rparr>,
           ''cherrypick/release-1.0/'' @ take 7 c @ ''-1700000000000''), s1) \<and>
     started s1 = 5"
  using assms
  by (auto simp add: runSetup_def scenario_readInputs thenDo_def [of "readInputs _"] noCommitsSpecified_def
        chooseBranchName_def generateBranchName_def substring0_def replaceSlashes_def showNat_now
        configureGit_def fetchBranch_def createBranch_def initialState_def ret_def)

lemma splitAndTrim_examples:
  "splitAndTrim ''abc1234,def5678'' = [''abc1234'', ''def5678'']"
  "splitAndTrim ''abc1234'' = [''abc1234'']"
  "splitAndTrim '',,'' = [[], [], []]"
  "splitAndTrim '' abc1234 , def5678'' = [''abc1234'', ''def5678'']"
  by (simp_all add: splitAndTrim_def trim_def isWhiteSpace_def)

theorem publish_only_after_success_witness:
  "list_all notPublishing
     (trace (run (surroundings (afterSetup conflictAtSecond) (scenarioInputs ''abc1234,def5678''))
        initialState)) \<and>
   last (trace (run (surroundings (afterSetup conflictAtSecond) (scenarioInputs ''abc1234,def5678''))
        initialState)) =
     SetFailed ''Merge conflict while cherry-picking commit def5678''"
proof -
  let ?env = "surroundings (afterSetup conflictAtSecond) (scenarioInputs ''abc1234,def5678'')"
  let ?inputs = "\<lparr>commits = [''abc1234'', ''def5678''],
           targetBranch = ''release/1.0'', newBranch = [], prTitle = [],
           prBody = [], ghToken = ''token'', repository = ''flxbl-io/demo'',
           authorName = ''github-actions[bot]'',
           authorEmail = ''github-actions[bot]@users.noreply.github.com'',
           draft = False, labels = []\<rparr>"
  let ?b = "''cherrypick/release-1.0/abc1234-1700000000000''"
  have "\<exists>s1. runSetup ?env initialState = (Inr (?inputs, ?b), s1) \<and> started s1 = 5"
    using scenario_setup [of "''abc1234,def5678''" "''abc1234''" "[''def5678'']" conflictAtSecond]
    by (simp add: splitAndTrim_examples)
  then obtain s1 where ready: "runSetup ?env initialState = (Inr (?inputs, ?b), s1)" and five: "started s1 = 5"
    by blast
  have "\<exists>new. cherryPickLoop ?env [''abc1234'', ''def5678''] [] s1 =
           (Inr \<lparr>status = conflict, successfulCommits = [] @ take 1 [''abc1234'', ''def5678''],
                 failedCommit = Some ([''abc1234'', ''def5678''] ! 1),
                 error = Some (''Merge conflict while cherry-picking commit '' @ [''abc1234'', ''def5678''] ! 1)\<rparr>,
            s1\<lparr>started := started s1 + 2 * 1 + 3, trace := trace s1 @ new\<rparr>) \<and>
         execCalls new =
           concat (map (\<lambda>c. [(''git'', applyArgs c), (''git'', finalizeArgs c)]) (take 1 [''abc1234'', ''def5678''])) @
           [(''git'', applyArgs ([''abc1234'', ''def5678''] ! 1)), (''git'', statusArgs), (''git'', abortArgs)]"
    by (rule loop_conflict_at) (auto dest!: less_2_cases simp: five conflictAtSecond_outputs)
  then obtain new1 where run1: "cherryPickLoop ?env [''abc1234'', ''def5678''] [] s1 =
           (Inr \<lparr>status = conflict, successfulCommits = [] @ take 1 [''abc1234'', ''def5678''],
                 failedCommit = Some ([''abc1234'', ''def5678''] ! 1),
                 error = Some (''Merge conflict while cherry-picking commit '' @ [''abc1234'', ''def5678''] ! 1)\<rparr>,
            s1\<lparr>started := started s1 + 2 * 1 + 3, trace := trace s1 @ new1\<rparr>)"
    by (elim exE conjE)
  define s2 where "s2 = s1\<lparr>started := started s1 + 2 * 1 + 3, trace := trace s1 @ new1\<rparr>"
  have replay: "cherryPickCommits ?env (commits ?inputs) s1 =
      (Inr \<lparr>status = conflict, successfulCommits = [''abc1234''], failedCommit = Some ''def5678'',
            error = Some ''Merge conflict while cherry-picking commit def5678''\<rparr>, s2)"
    using run1 by (simp add: cherryPickCommits_def s2_def)
  from publish_only_after_success [of ?env initialState] obtain new where
    tr: "trace (run ?env initialState) = trace initialState @ new" and
    rule: "\<forall>inputs b s1 r s2. runSetup ?env initialState = (Inr (inputs, b), s1) \<and>
           cherryPickCommits ?env (commits inputs) s1 = (Inr r, s2) \<and> status r \<noteq> success \<longrightarrow>
        list_all notPublishing new \<and>
        trace (run ?env initialState) =
          trace s2 @
          [SetOutput ''cherry-pick-status'' (statusText (status r)), SetOutput ''branch-name'' b,
           PrintSummary inputs b r None] @
          (if status r = conflict then
             [Warning ''Cherry-pick had conflicts. Manual intervention required.'',
              SetFailed (''Merge conflict while cherry-picking commit '' @ optText (failedCommit r))]
           else [SetFailed (''Cherry-pick failed: '' @ optText (error r))])"
    by (elim exE conjE) (rule that)
  let ?r = "\<lparr>status = conflict, successfulCommits = [''abc1234''], failedCommit = Some ''def5678'',
            error = Some ''Merge conflict while cherry-picking commit def5678''\<rparr>"
  have "status ?r \<noteq> success" by simp
  with ready replay have
    "runSetup ?env initialState = (Inr (?inputs, ?b), s1) \<and>
     cherryPickCommits ?env (commits ?inputs) s1 = (Inr ?r, s2) \<and> status ?r \<noteq> success"
    by (intro conjI)
  from rule [rule_format, of ?inputs ?b s1 ?r s2, OF this] have
    "list_all notPublishing new \<and>
     trace (run ?env initialState) =
       trace s2 @
       [SetOutput ''cherry-pick-status'' ''conflict'', SetOutput ''branch-name'' ?b,
        PrintSummary ?inputs ?b
          \<lparr>status = conflict, successfulCommits = [''abc1234''], failedCommit = Some ''def5678'',
            error = Some ''Merge conflict while cherry-picking commit def5678''\<rparr> None,
        Warning ''Cherry-pick had conflicts. Manual intervention required.'',
        SetFailed ''Merge conflict while cherry-picking commit def5678'']"
    by simp
  then have quiet: "list_all notPublishing new" and
    full: "trace (run ?env initialState) =
       trace s2 @
       [SetOutput ''cherry-pick-status'' ''conflict'', SetOutput ''branch-name'' ?b,
        PrintSummary ?inputs ?b
          \<lparr>status = conflict, successfulCommits = [''abc1234''], failedCommit = Some ''def5678'',
            error = Some ''Merge conflict while cherry-picking commit def5678''\<rparr> None,
        Warning ''Cherry-pick had conflicts. Manual intervention required.'',
        SetFailed ''Merge conflict while cherry-picking commit def5678'']"
    by (rule conjunct1, rule conjunct2)
  have "trace (run ?env initialState) = new"
    using tr by (simp add: initialState_def)
  with quiet have "list_all notPublishing (trace (run ?env initialState))"
    by simp
  moreover have "last (trace (run ?env initialState)) =
      SetFailed ''Merge conflict while cherry-picking commit def5678''"
    unfolding full by simp
  ultimately show ?thesis by (rule conjI)
qed

lemma pushRejected_outputs:
  "outputOf (surroundings pushRejected ins) n =
     (if n = 2 then \<lparr>stdout = [], stderr = ''remote rejected'', exitCode = 1\<rparr>
      else \<lparr>stdout = [], stderr = [], exitCode = 0\<rparr>)"
  by (simp add: pushRejected_def defaultMaxBuffer_def trim_def isWhiteSpace_def)

theorem outputs_follow_replay_witness:
  "\<exists>before rest.
     trace (run (surroundings (afterSetup pushRejected) (scenarioInputs ''abc1234'')) initialState) =
       before @
       [SetOutput ''cherry-pick-status'' ''success'',
        SetOutput ''branch-name'' ''cherrypick/release-1.0/abc1234-1700000000000''] @ rest \<and>
     list_all notPublishing before \<and>
     last rest = SetFailed ''Failed to push branch: remote rejected''"
proof -
  let ?env = "surroundings (afterSetup pushRejected) (scenarioInputs ''abc1234'')"
  let ?inputs = "\<lparr>commits = [''abc1234''],
           targetBranch = ''release/1.0'', newBranch = [], prTitle = [],
           prBody = [], ghToken = ''token'', repository = ''flxbl-io/demo'',
           authorName = ''github-actions[bot]'',
           authorEmail = ''github-actions[bot]@users.noreply.github.com'',
           draft = False, labels = []\<rparr>"
  let ?b = "''cherrypick/release-1.0/abc1234-1700000000000''"
  let ?r = "\<lparr>status = success, successfulCommits = [''abc1234''], failedCommit = None, error = None\<rparr>"
  have "\<exists>s1. runSetup ?env initialState = (Inr (?inputs, ?b), s1) \<and> started s1 = 5"
    using scenario_setup [of "''abc1234''" "''abc1234''" "[]" pushRejected]
    by (simp add: splitAndTrim_examples)
  then obtain s1 where ready: "runSetup ?env initialState = (Inr (?inputs, ?b), s1)" and five: "started s1 = 5"
    by (elim exE conjE)
  define s2 where "s2 = s1\<lparr>started := 7,
     trace := trace s1 @
       [Info ''Cherry-picking commit: abc1234'',
        Exec ''git'' (applyArgs ''abc1234'') False True,
        Exec ''git'' (finalizeArgs ''abc1234'') False True,
        Info ''Successfully cherry-picked: abc1234'']\<rparr>"
  have replay: "cherryPickCommits ?env (commits ?inputs) s1 = (Inr ?r, s2)"
    by (simp add: cherryPickCommits_def five pushRejected_outputs ret_def s2_def)
  have seven: "started s2 = 7" by (simp add: s2_def)
  from outputs_follow_replay [OF ready] obtain r' s2' before rest where
    replay': "cherryPickCommits ?env (commits ?inputs) s1 = (Inr r', s2')" and
    before: "trace s2' = trace initialState @ before" "list_all notPublishing before" and
    tr: "trace (run ?env initialState) =
           trace s2' @
           [SetOutput ''cherry-pick-status'' (statusText (status r')), SetOutput ''branch-name'' ?b] @ rest"
    by (elim exE conjE)
  from replay replay' have same: "r' = ?r" "s2' = s2" by simp_all
  have fin: "runFinish ?env ?inputs ?b ?r s2 =
      (Inl (Error ''Failed to push branch: remote rejected''),
       s2\<lparr>started := 8,
          trace := trace s2 @
            [SetOutput ''cherry-pick-status'' ''success'', SetOutput ''branch-name'' ?b,
             Info (''Pushing branch: '' @ ?b),
             Exec ''git'' (pushArgs ?b) False True]\<rparr>)"
    by (simp add: runFinish_def pushBranch_def seven pushRejected_outputs throw_def)
  have whole: "trace (run ?env initialState) =
      trace s2 @
        [SetOutput ''cherry-pick-status'' ''success'', SetOutput ''branch-name'' ?b,
         Info (''Pushing branch: '' @ ?b),
         Exec ''git'' (pushArgs ?b) False True,
         SetFailed ''Failed to push branch: remote rejected'']"
    unfolding run_after_replay [OF ready replay] fin by simp
  have rest: "rest = [Info (''Pushing branch: '' @ ?b),
         Exec ''git'' (pushArgs ?b) False True,
         SetFailed ''Failed to push branch: remote rejected'']"
    using tr whole unfolding same by simp
  have "trace (run ?env initialState) =
       before @
       [SetOutput ''cherry-pick-status'' ''success'',
        SetOutput ''branch-name'' ?b] @ rest"
    using tr before(1) unfolding same by (simp add: initialState_def)
  moreover have "last rest = SetFailed ''Failed to push branch: remote rejected''"
    unfolding rest by simp
  ultimately show ?thesis
    using before(2) by (intro exI [of _ before] exI [of _ rest] conjI)
qed

section \<open>The name of the branch\<close>

lemma digit_round_trip: "d < 10 \<Longrightarrow> digitValue (digitChar d) = d"
proof -
  assume "d < 10"
  then have "d = 0 \<or> d = 1 \<or> d = 2 \<or> d = 3 \<or> d = 4 \<or> d = 5 \<or> d = 6 \<or> d = 7 \<or> d = 8 \<or> d = 9"
    by arith
  then show ?thesis
    by (elim disjE) (simp_all add: digitValue_def digitChar_def)
qed

lemma digitChar_is_digit: "d < 10 \<Longrightarrow> digitChar d \<in> set ''0123456789''"
  unfolding digitChar_def by (rule nth_mem) simp

lemma readNat_snoc: "readNat (ds @ [c]) = 10 * readNat ds + digitValue c"
  by (simp add: readNat_def)

lemma readNat_showNat: "readNat (showNat n) = n"
proof (induction n rule: showNat.induct)
  case (1 n)
  show ?case
  proof (cases "n < 10")
    case True
    then show ?thesis
      by (subst showNat.simps) (simp add: readNat_def digit_round_trip)
  next
    case False
    then have "readNat (showNat (n div 10)) = n div 10" by (rule "1.IH")
    then show ?thesis
      using False by (subst showNat.simps) (simp add: readNat_snoc digit_round_trip)
  qed
qed

lemma showNat_digits: "set (showNat n) \<subseteq> set ''0123456789''"
proof (induction n rule: showNat.induct)
  case (1 n)
  show ?case
  proof (cases "n < 10")
    case True
    then show ?thesis
      using digitChar_is_digit [of n] by (subst showNat.simps) simp
  next
    case False
    then have "set (showNat (n div 10)) \<subseteq> set ''0123456789''" by (rule "1.IH")
    moreover have "digitChar (n mod 10) \<in> set ''0123456789''"
      by (rule digitChar_is_digit) simp
    ultimately show ?thesis
      using False by (subst showNat.simps) simp
  qed
qed

text \<open>
  C7. The branch name of a run is the input \<open>new-branch\<close> as it is when that is not
  empty. Otherwise, for a list of commits that is not empty, it is \<open>cherrypick/\<close>, the
  target branch with every slash turned into a dash, a slash, the first 7 characters of
  the first commit, a dash, and the time in milliseconds written in decimal digits
  (\<open>showNat\<close>: digits only, and reading them gives the number back).
  \<open>generateBranchName\<close> alone does the same for any target and any such list.
\<close>

theorem branch_name:
  "(newBranch inputs \<noteq> [] \<longrightarrow> chooseBranchName env inputs s = (Inr (newBranch inputs), s)) \<and>
   (newBranch inputs = [] \<and> commits inputs \<noteq> [] \<longrightarrow>
      chooseBranchName env inputs s =
        (Inr (''cherrypick/'' @
              map (\<lambda>c. if c = CHR ''/'' then CHR ''-'' else c) (targetBranch inputs) @
              ''/'' @ take 7 (hd (commits inputs)) @ ''-'' @ showNat (now env)), s)) \<and>
   (cs \<noteq> [] \<longrightarrow>
      generateBranchName t target cs =
        Inr (''cherrypick/'' @ map (\<lambda>c. if c = CHR ''/'' then CHR ''-'' else c) target @
             ''/'' @ take 7 (hd cs) @ ''-'' @ showNat t)) \<and>
   readNat (showNat t) = t \<and> set (showNat t) \<subseteq> set ''0123456789''"
proof -
  have gen: "generateBranchName t' target' cs' =
        Inr (''cherrypick/'' @ map (\<lambda>c. if c = CHR ''/'' then CHR ''-'' else c) target' @
             ''/'' @ take 7 (hd cs') @ ''-'' @ showNat t')" if "cs' \<noteq> []" for t' target' cs'
    using that by (cases cs') (simp_all add: generateBranchName_def substring0_def replaceSlashes_def)
  have "newBranch inputs \<noteq> [] \<longrightarrow> chooseBranchName env inputs s = (Inr (newBranch inputs), s)"
    by (simp add: chooseBranchName_def ret_def)
  moreover have "newBranch inputs = [] \<and> commits inputs \<noteq> [] \<longrightarrow>
      chooseBranchName env inputs s =
        (Inr (''cherrypick/'' @
              map (\<lambda>c. if c = CHR ''/'' then CHR ''-'' else c) (targetBranch inputs) @
              ''/'' @ take 7 (hd (commits inputs)) @ ''-'' @ showNat (now env)), s)"
    by (simp add: chooseBranchName_def gen ret_def)
  moreover have "cs \<noteq> [] \<longrightarrow>
      generateBranchName t target cs =
        Inr (''cherrypick/'' @ map (\<lambda>c. if c = CHR ''/'' then CHR ''-'' else c) target @
             ''/'' @ take 7 (hd cs) @ ''-'' @ showNat t)"
    using gen by blast
  ultimately show ?thesis
    using readNat_showNat showNat_digits by (intro conjI)
qed

theorem branch_name_witness:
  "chooseBranchName (surroundings (\<lambda>n. quietProcess) noInputs)
     \<lparr>commits = [''abc1234def'', ''def5678''], targetBranch = ''release/1.0'',
      newBranch = ''backport/fix'', prTitle = [], prBody = [], ghToken = ''token'',
      repository = ''flxbl-io/demo'', authorName = [], authorEmail = [], draft = False,
      labels = []\<rparr> initialState = (Inr ''backport/fix'', initialState) \<and>
   generateBranchName 1700000000000 ''release/1.0'' [''abc1234def'', ''def5678''] =
     Inr ''cherrypick/release-1.0/abc1234-1700000000000''"
proof -
  let ?inputs = "\<lparr>commits = [''abc1234def'', ''def5678''], targetBranch = ''release/1.0'',
      newBranch = ''backport/fix'', prTitle = [], prBody = [], ghToken = ''token'',
      repository = ''flxbl-io/demo'', authorName = [], authorEmail = [], draft = False,
      labels = []\<rparr>"
  let ?env = "surroundings (\<lambda>n. quietProcess) noInputs"
  from branch_name [of ?inputs ?env initialState "[''abc1234def'', ''def5678'']" 1700000000000 "''release/1.0''"]
  have "chooseBranchName ?env ?inputs initialState = (Inr (newBranch ?inputs), initialState)"
    and "generateBranchName 1700000000000 ''release/1.0'' [''abc1234def'', ''def5678''] =
        Inr (''cherrypick/'' @ map (\<lambda>c. if c = CHR ''/'' then CHR ''-'' else c) ''release/1.0'' @
             ''/'' @ take 7 (hd [''abc1234def'', ''def5678'']) @ ''-'' @ showNat 1700000000000)"
    by simp_all
  then show ?thesis
    by (simp add: showNat_now)
qed


section \<open>The validation of the commits\<close>

lemma splitOn_length: "length (splitOn sep s) = Suc (length (filter (\<lambda>c. c = sep) s))"
  by (induction s) (auto split: list.split)

lemma splitOn_two: "sep \<in> set s \<Longrightarrow> 2 \<le> length (splitOn sep s)"
proof -
  assume "sep \<in> set s"
  then have "filter (\<lambda>c. c = sep) s \<noteq> []"
    by (simp add: filter_empty_conv)
  then have "0 < length (filter (\<lambda>c. c = sep) s)" by (cases "filter (\<lambda>c. c = sep) s") simp_all
  then show ?thesis by (simp add: splitOn_length Suc_le_eq)
qed

lemma noCommitsSpecified_iff: "noCommitsSpecified cs \<longleftrightarrow> cs = [] \<or> cs = [[]]"
  by (cases cs) (auto simp: noCommitsSpecified_def)

lemma readInputs_commits:
  assumes "readInputs env s = (Inr inputs, s1)"
  shows "\<exists>raw. getInput env ''commits'' True = Inr raw \<and> commits inputs = splitAndTrim raw"
proof (cases "getInput env ''commits'' True")
  case (Inl e)
  with assms show ?thesis by (simp add: readInputs_def input_def)
next
  case (Inr raw)
  from assms Inr have "commits inputs = splitAndTrim raw"
    by (auto simp: readInputs_def input_def thenDo_def ret_def throw_def
          split: sum.splits if_splits)
  with Inr show ?thesis by simp
qed


text \<open>What the setup does once the inputs have passed both validations.\<close>

lemma setup_past_validation:
  "fst ((thenDo (emit (SetSecret (ghToken inputs))) (\<lambda>_.
         thenDo (emit (PrintHeader inputs)) (\<lambda>_.
         thenDo (chooseBranchName env inputs) (\<lambda>branchName.
         thenDo (info (''Using branch name: '' @ branchName)) (\<lambda>_.
         thenDo (configureGit env (authorName inputs) (authorEmail inputs)) (\<lambda>_.
         thenDo (fetchBranch env (targetBranch inputs)) (\<lambda>_.
         thenDo (createBranch env branchName (targetBranch inputs)) (\<lambda>_.
           ret (inputs, branchName))))))))) s) \<noteq> Inl (Error ''No commits specified'')"
  by (simp add: chooseBranchName_def generateBranchName_def configureGit_def fetchBranch_def
        createBranch_def ret_def throw_def split: list.split)

lemma last_dropWhile: "dropWhile P xs \<noteq> [] \<Longrightarrow> last (dropWhile P xs) = last xs"
proof -
  assume ne: "dropWhile P xs \<noteq> []"
  have "xs = takeWhile P xs @ dropWhile P xs" by simp
  then have "last xs = last (takeWhile P xs @ dropWhile P xs)" by simp
  also have "\<dots> = last (dropWhile P xs)" using ne by (rule last_appendR)
  finally show ?thesis by simp
qed

lemma trim_shape:
  "\<exists>l r. s = l @ trim s @ r \<and> list_all isWhiteSpace l \<and> list_all isWhiteSpace r \<and>
     (trim s = [] \<or> (\<not> isWhiteSpace (hd (trim s)) \<and> \<not> isWhiteSpace (last (trim s))))"
proof -
  define l where "l = takeWhile isWhiteSpace s"
  define m where "m = dropWhile isWhiteSpace s"
  define r where "r = rev (takeWhile isWhiteSpace (rev m))"
  define t where "t = dropWhile isWhiteSpace (rev m)"
  have tr: "trim s = rev t" by (simp add: trim_def t_def m_def)
  have "rev m = takeWhile isWhiteSpace (rev m) @ t" by (simp add: t_def)
  then have "rev (rev m) = rev (takeWhile isWhiteSpace (rev m) @ t)" by (rule arg_cong)
  then have m: "m = rev t @ r" by (simp add: r_def)
  have "s = l @ m" by (simp add: l_def m_def)
  with m have s: "s = l @ rev t @ r" by simp
  have wl: "list_all isWhiteSpace l"
    unfolding l_def list_all_iff by (auto dest: set_takeWhileD)
  have wr: "list_all isWhiteSpace r"
    unfolding r_def list_all_iff by (auto dest: set_takeWhileD)
  have ends: "\<not> isWhiteSpace (hd (rev t)) \<and> \<not> isWhiteSpace (last (rev t))" if ne: "t \<noteq> []"
  proof -
    have "\<not> isWhiteSpace (hd t)" using ne unfolding t_def by (rule hd_dropWhile)
    then have a: "\<not> isWhiteSpace (last (rev t))" using ne by (simp add: last_rev)
    have mne: "m \<noteq> []" using ne by (auto simp: t_def)
    then have hm: "\<not> isWhiteSpace (hd m)" unfolding m_def by (rule hd_dropWhile)
    have "last t = last (rev m)" using ne unfolding t_def by (rule last_dropWhile)
    also have "\<dots> = hd m" using mne by (simp add: last_rev)
    finally have "\<not> isWhiteSpace (last t)" using hm by simp
    then have "\<not> isWhiteSpace (hd (rev t))" using ne by (simp add: hd_rev)
    with a show ?thesis by simp
  qed
  show ?thesis
    unfolding tr using s wl wr ends by (intro exI [of _ l] exI [of _ r]) auto
qed

lemma splitOn_no_separator: "p \<in> set (splitOn sep s) \<Longrightarrow> sep \<notin> set p"
  by (induction s arbitrary: p) (auto split: if_splits list.splits)

lemma splitOn_joined: "concat (map (\<lambda>p. sep # p) (splitOn sep s)) = sep # s"
  by (induction s) (auto split: list.splits)


text \<open>Outside the replay a run never starts the apply of a commit.\<close>

lemma attemptedCommits_none:
  "list_all (\<lambda>e. attemptOf e = []) new \<Longrightarrow> attemptedCommits new = []"
  by (induction new) simp_all

lemma runSetup_tries_nothing: "emitsOnly (\<lambda>e. attemptOf e = []) (runSetup env)"
  unfolding runSetup_def configureGit_def fetchBranch_def createBranch_def
  by (auto intro!: emitsOnly_readInputs emitsOnly_chooseBranchName)

lemma appendCommitLines_tries_nothing:
  "emitsOnly (\<lambda>e. attemptOf e = []) (appendCommitLines env cs body)"
  by (induction cs arbitrary: body) (auto simp: getCommitMessage_def)

lemma createPullRequest_tries_nothing:
  "emitsOnly (\<lambda>e. attemptOf e = []) (createPullRequest env inputs b r)"
  unfolding createPullRequest_def getCommitMessage_def
  by (auto intro!: appendCommitLines_tries_nothing split: option.split sum.split prod.split)

lemma runFinish_tries_nothing:
  "emitsOnly (\<lambda>e. attemptOf e = []) (runFinish env inputs b r)"
  unfolding runFinish_def pushBranch_def pushArgs_def
  by (auto intro!: createPullRequest_tries_nothing)

lemma runSetup_keeps_inputs:
  assumes "readInputs env s = (Inr inputs, s1)" and "runSetup env s = (Inr (inputs', b), s2)"
  shows "inputs' = inputs"
  using assms
  by (simp add: runSetup_def thenDo_def [of "readInputs env"] chooseBranchName_def
        generateBranchName_def configureGit_def fetchBranch_def createBranch_def
        ret_def throw_def split: if_splits list.splits)

lemma run_tries_listed_commits:
  assumes "readInputs env s = (Inr inputs, s1)"
  shows "\<exists>new. trace (run env s) = trace s @ new \<and> prefix (attemptedCommits new) (commits inputs)"
proof -
  obtain x s2 where prep: "runSetup env s = (x, s2)"
    by (cases "runSetup env s") blast
  from runSetup_tries_nothing [of env] have
    "\<exists>new. trace (snd (runSetup env s)) = trace s @ new \<and> list_all (\<lambda>e. attemptOf e = []) new"
    unfolding emitsOnly_def by (rule spec)
  then obtain new0 where
    new0: "trace s2 = trace s @ new0" "list_all (\<lambda>e. attemptOf e = []) new0"
    unfolding prep by auto
  note none0 = attemptedCommits_none [OF new0(2)]
  show ?thesis
  proof (cases x)
    case (Inl e)
    let ?new = "new0 @ [SetFailed (case e of Error message \<Rightarrow> message | NonError \<Rightarrow> ''Unknown error occurred'')]"
    have "trace (run env s) = trace s @ ?new"
      using run_setup_throws [of env s e s2] prep Inl new0 by simp
    moreover have "attemptedCommits ?new = []"
      using none0 by simp
    ultimately show ?thesis
      by (intro exI [of _ ?new]) simp
  next
    case (Inr p)
    obtain inputs' b where p: "p = (inputs', b)" by (cases p)
    have "inputs' = inputs"
      using runSetup_keeps_inputs [OF assms] prep Inr p by simp
    with prep Inr p have ready: "runSetup env s = (Inr (inputs, b), s2)" by simp
    obtain y s3 where replay0: "cherryPickLoop env (commits inputs) [] s2 = (y, s3)"
      by (cases "cherryPickLoop env (commits inputs) [] s2") blast
    with loop_shape [where env = env and cs = "commits inputs" and applied = "[]" and s = s2]
    obtain r n where y: "y = Inr r" and
      tried: "attemptedCommits (trace s3) =
         attemptedCommits (trace s2) @ take (if status r = success then n else Suc n) (commits inputs)"
      by (auto split: sum.splits)
    have replay: "cherryPickCommits env (commits inputs) s2 = (Inr r, s3)"
      using replay0 y by (simp add: cherryPickCommits_def)
    from replay_returns [of env "commits inputs" s2] replay obtain new1 where
      new1: "trace s3 = trace s2 @ new1"
      by auto
    have tried1: "attemptedCommits new1 =
        take (if status r = success then n else Suc n) (commits inputs)"
      using tried unfolding new1 by simp
    from runFinish_tries_nothing [of env inputs b r] have
      "\<exists>new. trace (snd (runFinish env inputs b r s3)) = trace s3 @ new \<and>
         list_all (\<lambda>e. attemptOf e = []) new"
      unfolding emitsOnly_def by (rule spec)
    then obtain new2 where
      new2: "trace (snd (runFinish env inputs b r s3)) = trace s3 @ new2"
        "list_all (\<lambda>e. attemptOf e = []) new2"
      by (elim exE conjE)
    have "\<exists>tail. trace (run env s) = trace (snd (runFinish env inputs b r s3)) @ tail \<and>
        attemptedCommits tail = []"
      unfolding run_after_replay [OF ready replay]
      by (cases "runFinish env inputs b r s3") (auto split: sum.split exn.split)
    then obtain tail where
      tail: "trace (run env s) = trace (snd (runFinish env inputs b r s3)) @ tail"
        "attemptedCommits tail = []"
      by (elim exE conjE)
    let ?new = "new0 @ new1 @ new2 @ tail"
    have "trace (run env s) = trace s @ ?new"
      using tail(1) new2(1) new1 new0(1) by simp
    moreover have "attemptedCommits ?new =
        take (if status r = success then n else Suc n) (commits inputs)"
      using none0 tried1 attemptedCommits_none [OF new2(2)] tail(2) by simp
    ultimately show ?thesis
      by (intro exI [of _ ?new]) (simp add: take_is_prefix)
  qed
qed

text \<open>
  C10. Once the inputs are read and the repository is known, the setup of a run throws
  \<open>No commits specified\<close> exactly when the parsed list of commits is empty or is one
  empty entry. A list of two or more entries passes, whatever the entries are, so an
  input with a comma always passes. The parsed list has one entry for each piece of the
  input \<open>commits\<close> between its commas (the pieces hold no comma and, joined by commas,
  give the input back), and each entry is its piece without the white space around it:
  the piece is white space, then the entry, then white space, and the entry neither
  begins nor ends with white space. These entries are what the run replays: the commits
  it tries to apply are, in order, a prefix of the parsed list. In the examples after it
  the input of two commas makes the run try the empty commit three times, and in the
  input \<open> abc1234 , def5678\<close> the run tries \<open>abc1234\<close> and \<open>def5678\<close>.
\<close>

theorem no_commits_validation:
  assumes "readInputs env s = (Inr inputs, s1)" and "repository inputs \<noteq> []"
  shows "(fst (runSetup env s) = Inl (Error ''No commits specified'') \<longleftrightarrow>
            commits inputs = [] \<or> commits inputs = [[]]) \<and>
         (2 \<le> length (commits inputs) \<longrightarrow>
            fst (runSetup env s) \<noteq> Inl (Error ''No commits specified'')) \<and>
         (\<exists>raw pieces. getInput env ''commits'' True = Inr raw \<and>
            pieces = splitOn CHR '','' raw \<and>
            commits inputs = map trim pieces \<and>
            (CHR '','' \<in> set raw \<longrightarrow> 2 \<le> length (commits inputs)) \<and>
            concat (map (\<lambda>p. CHR '','' # p) pieces) = CHR '','' # raw \<and>
            (\<forall>p \<in> set pieces. CHR '','' \<notin> set p) \<and>
            length (commits inputs) = length pieces \<and>
            (\<forall>i < length pieces. \<exists>l r.
               pieces ! i = l @ commits inputs ! i @ r \<and>
               list_all isWhiteSpace l \<and> list_all isWhiteSpace r \<and>
               (commits inputs ! i = [] \<or>
                (\<not> isWhiteSpace (hd (commits inputs ! i)) \<and>
                 \<not> isWhiteSpace (last (commits inputs ! i)))))) \<and>
         (\<exists>new. trace (run env s) = trace s @ new \<and>
            prefix (attemptedCommits new) (commits inputs))"
proof -
  have rejected: "fst (runSetup env s) = Inl (Error ''No commits specified'')"
    if "noCommitsSpecified (commits inputs)"
    using that assms by (simp add: runSetup_def thenDo_def [of "readInputs env"] throw_def)
  have passed: "fst (runSetup env s) \<noteq> Inl (Error ''No commits specified'')"
    if "\<not> noCommitsSpecified (commits inputs)"
    using that assms setup_past_validation [of inputs env s1]
    by (simp add: runSetup_def thenDo_def [of "readInputs env"])
  have iff: "fst (runSetup env s) = Inl (Error ''No commits specified'') \<longleftrightarrow>
            commits inputs = [] \<or> commits inputs = [[]]"
    using rejected passed noCommitsSpecified_iff [of "commits inputs"] by blast
  have two: "2 \<le> length (commits inputs) \<longrightarrow>
            fst (runSetup env s) \<noteq> Inl (Error ''No commits specified'')"
    unfolding iff by auto
  from readInputs_commits [OF assms(1)] obtain raw where
    raw: "getInput env ''commits'' True = Inr raw" "commits inputs = splitAndTrim raw"
    by blast
  define pieces where "pieces = splitOn CHR '','' raw"
  have parsed: "commits inputs = map trim pieces"
    by (simp add: raw(2) splitAndTrim_def pieces_def)
  have comma: "CHR '','' \<in> set raw \<longrightarrow> 2 \<le> length (commits inputs)"
    using splitOn_two [of "CHR '',''" raw] by (simp add: parsed pieces_def)
  have joined: "concat (map (\<lambda>p. CHR '','' # p) pieces) = CHR '','' # raw"
    unfolding pieces_def by (rule splitOn_joined)
  have clean: "\<forall>p \<in> set pieces. CHR '','' \<notin> set p"
    unfolding pieces_def by (auto dest: splitOn_no_separator)
  have len: "length (commits inputs) = length pieces"
    by (simp add: parsed)
  have trimmed: "\<forall>i < length pieces. \<exists>l r.
               pieces ! i = l @ commits inputs ! i @ r \<and>
               list_all isWhiteSpace l \<and> list_all isWhiteSpace r \<and>
               (commits inputs ! i = [] \<or>
                (\<not> isWhiteSpace (hd (commits inputs ! i)) \<and>
                 \<not> isWhiteSpace (last (commits inputs ! i))))"
  proof (intro allI impI)
    fix i assume "i < length pieces"
    then have "commits inputs ! i = trim (pieces ! i)" by (simp add: parsed)
    then show "\<exists>l r.
               pieces ! i = l @ commits inputs ! i @ r \<and>
               list_all isWhiteSpace l \<and> list_all isWhiteSpace r \<and>
               (commits inputs ! i = [] \<or>
                (\<not> isWhiteSpace (hd (commits inputs ! i)) \<and>
                 \<not> isWhiteSpace (last (commits inputs ! i))))"
      using trim_shape [of "pieces ! i"] by simp
  qed
  have third: "\<exists>raw pieces. getInput env ''commits'' True = Inr raw \<and>
            pieces = splitOn CHR '','' raw \<and>
            commits inputs = map trim pieces \<and>
            (CHR '','' \<in> set raw \<longrightarrow> 2 \<le> length (commits inputs)) \<and>
            concat (map (\<lambda>p. CHR '','' # p) pieces) = CHR '','' # raw \<and>
            (\<forall>p \<in> set pieces. CHR '','' \<notin> set p) \<and>
            length (commits inputs) = length pieces \<and>
            (\<forall>i < length pieces. \<exists>l r.
               pieces ! i = l @ commits inputs ! i @ r \<and>
               list_all isWhiteSpace l \<and> list_all isWhiteSpace r \<and>
               (commits inputs ! i = [] \<or>
                (\<not> isWhiteSpace (hd (commits inputs ! i)) \<and>
                 \<not> isWhiteSpace (last (commits inputs ! i)))))"
    using raw(1) pieces_def parsed comma joined clean len trimmed
    by (intro exI [of _ raw] exI [of _ pieces] conjI)
  show ?thesis
    using iff two third run_tries_listed_commits [OF assms(1)] by (intro conjI)
qed

lemma splitAndTrim_blank: "splitAndTrim '' '' = [[]]"
  by (simp add: splitAndTrim_def trim_def isWhiteSpace_def)

lemma commas_run:
  "attemptedCommits (trace (run (surroundings (afterSetup (\<lambda>n. quietProcess)) (scenarioInputs '',,''))
     initialState)) = [[], [], []]"
  by (simp add: run_def runBody_def runSetup_def scenario_readInputs thenDo_def [of "readInputs _"]
        splitAndTrim_examples noCommitsSpecified_def
        chooseBranchName_def generateBranchName_def substring0_def replaceSlashes_def showNat_now
        configureGit_def fetchBranch_def createBranch_def initialState_def
        cherryPickCommits_def runFinish_def pushBranch_def createPullRequest_def
        getCommitMessage_def ownerAndRepo_def ret_def
        applyArgs_def finalizeArgs_def pushArgs_def
        outputOf_quiet)

lemma spaced_run:
  "attemptedCommits (trace (run (surroundings (afterSetup (\<lambda>n. quietProcess))
      (scenarioInputs '' abc1234 , def5678'')) initialState)) = [''abc1234'', ''def5678'']"
  by (simp add: run_def runBody_def runSetup_def scenario_readInputs thenDo_def [of "readInputs _"]
        splitAndTrim_examples noCommitsSpecified_def
        chooseBranchName_def generateBranchName_def substring0_def replaceSlashes_def showNat_now
        configureGit_def fetchBranch_def createBranch_def initialState_def
        cherryPickCommits_def runFinish_def pushBranch_def createPullRequest_def
        getCommitMessage_def ownerAndRepo_def ret_def
        applyArgs_def finalizeArgs_def pushArgs_def
        outputOf_quiet)

theorem no_commits_validation_witness:
  "fst (runSetup (surroundings (afterSetup (\<lambda>n. quietProcess)) (scenarioInputs '',,'')) initialState) \<noteq>
     Inl (Error ''No commits specified'') \<and>
   attemptedCommits (trace (run (surroundings (afterSetup (\<lambda>n. quietProcess)) (scenarioInputs '',,''))
     initialState)) = [[], [], []] \<and>
   fst (runSetup (surroundings (afterSetup (\<lambda>n. quietProcess)) (scenarioInputs '' '')) initialState) =
     Inl (Error ''No commits specified'') \<and>
   splitOn CHR '','' '' abc1234 , def5678'' = ['' abc1234 '', '' def5678''] \<and>
   (\<exists>l r. '' abc1234 '' = l @ ''abc1234'' @ r \<and>
      list_all isWhiteSpace l \<and> list_all isWhiteSpace r) \<and>
   (\<exists>l r. '' def5678'' = l @ ''def5678'' @ r \<and>
      list_all isWhiteSpace l \<and> list_all isWhiteSpace r) \<and>
   (\<exists>new. trace (run (surroundings (afterSetup (\<lambda>n. quietProcess))
               (scenarioInputs '' abc1234 , def5678'')) initialState) = new \<and>
      prefix (attemptedCommits new) [''abc1234'', ''def5678'']) \<and>
   attemptedCommits (trace (run (surroundings (afterSetup (\<lambda>n. quietProcess))
      (scenarioInputs '' abc1234 , def5678'')) initialState)) = [''abc1234'', ''def5678'']"
proof -
  let ?commas = "surroundings (afterSetup (\<lambda>n. quietProcess)) (scenarioInputs '',,'')"
  let ?blank = "surroundings (afterSetup (\<lambda>n. quietProcess)) (scenarioInputs '' '')"
  let ?spaced = "surroundings (afterSetup (\<lambda>n. quietProcess)) (scenarioInputs '' abc1234 , def5678'')"
  let ?inputs = "\<lambda>cl. \<lparr>commits = splitAndTrim cl,
           targetBranch = ''release/1.0'', newBranch = [], prTitle = [],
           prBody = [], ghToken = ''token'', repository = ''flxbl-io/demo'',
           authorName = ''github-actions[bot]'',
           authorEmail = ''github-actions[bot]@users.noreply.github.com'',
           draft = False, labels = []\<rparr>"
  have c: "readInputs ?commas initialState = (Inr (?inputs '',,''), initialState)"
    by (rule scenario_readInputs)
  have b: "readInputs ?blank initialState = (Inr (?inputs '' ''), initialState)"
    by (rule scenario_readInputs)
  have sp: "readInputs ?spaced initialState = (Inr (?inputs '' abc1234 , def5678''), initialState)"
    by (rule scenario_readInputs)
  have r: "repository (?inputs cl) \<noteq> []" for cl by simp
  from no_commits_validation [OF c r] have
    "2 \<le> length (commits (?inputs '',,'')) \<longrightarrow>
       fst (runSetup ?commas initialState) \<noteq> Inl (Error ''No commits specified'')"
    by (rule conjunct1 [OF conjunct2])
  then have first: "fst (runSetup ?commas initialState) \<noteq> Inl (Error ''No commits specified'')"
    by (simp add: splitAndTrim_examples)
  from no_commits_validation [OF b r] have
    "fst (runSetup ?blank initialState) = Inl (Error ''No commits specified'') \<longleftrightarrow>
       commits (?inputs '' '') = [] \<or> commits (?inputs '' '') = [[]]"
    by (rule conjunct1)
  then have last: "fst (runSetup ?blank initialState) = Inl (Error ''No commits specified'')"
    by (simp add: splitAndTrim_blank)
  have pieces: "splitOn CHR '','' '' abc1234 , def5678'' = ['' abc1234 '', '' def5678'']"
    by simp
  note whole = no_commits_validation [OF sp r]
  from whole obtain raw ps where
    raw: "getInput ?spaced ''commits'' True = Inr raw" and
    ps: "ps = splitOn CHR '','' raw" and
    trimmed: "\<forall>i < length ps. \<exists>l r.
               ps ! i = l @ commits (?inputs '' abc1234 , def5678'') ! i @ r \<and>
               list_all isWhiteSpace l \<and> list_all isWhiteSpace r \<and>
               (commits (?inputs '' abc1234 , def5678'') ! i = [] \<or>
                (\<not> isWhiteSpace (hd (commits (?inputs '' abc1234 , def5678'') ! i)) \<and>
                 \<not> isWhiteSpace (last (commits (?inputs '' abc1234 , def5678'') ! i))))"
    by (elim exE conjE)
  have "raw = '' abc1234 , def5678''"
    using raw by (simp add: scenarioInputs_def)
  with ps pieces have ps': "ps = ['' abc1234 '', '' def5678'']" by simp
  have zero: "\<exists>l r. '' abc1234 '' = l @ ''abc1234'' @ r \<and>
      list_all isWhiteSpace l \<and> list_all isWhiteSpace r"
    using trimmed [rule_format, of 0] unfolding ps'
    by (simp add: splitAndTrim_examples) (elim exE conjE, (rule exI)+, (rule conjI, assumption)+, assumption)
  have one: "\<exists>l r. '' def5678'' = l @ ''def5678'' @ r \<and>
      list_all isWhiteSpace l \<and> list_all isWhiteSpace r"
    using trimmed [rule_format, of 1] unfolding ps'
    by (simp add: splitAndTrim_examples) (elim exE conjE, (rule exI)+, (rule conjI, assumption)+, assumption)
  from whole have "\<exists>new. trace (run ?spaced initialState) = trace initialState @ new \<and>
      prefix (attemptedCommits new) (commits (?inputs '' abc1234 , def5678''))"
    by (rule conjunct2 [OF conjunct2 [OF conjunct2]])
  then have tries: "\<exists>new. trace (run ?spaced initialState) = new \<and>
      prefix (attemptedCommits new) [''abc1234'', ''def5678'']"
    by (simp add: initialState_def splitAndTrim_examples)
  show ?thesis
    using first commas_run last pieces zero one tries spaced_run by (intro conjI)
qed

section \<open>The text of the pull request\<close>

lemma success_is_whole:
  assumes "cherryPickCommits env cs s0 = (Inr r, s1)" and "status r = success"
  shows "successfulCommits r = cs"
  using loop_shape [where env = env and cs = cs and applied = "[]" and s = s0] assms
  by (auto simp: cherryPickCommits_def)

lemma thenDo_getCommitMessage [simp]:
  "thenDo (getCommitMessage env c) f s =
     f (stdout (outputOf env (started s)))
       (s\<lparr>started := Suc (started s),
          trace := trace s @ [Exec ''git'' [''log'', ''-1'', ''--format=%s'', c] True True]\<rparr>)"
  by (simp add: getCommitMessage_def)

lemma appendCommitLines_result:
  "appendCommitLines env cs body s =
     (Inr (body @
           concat (map (\<lambda>i. ''- '' @ backtick @ take 7 (cs ! i) @ backtick @ '' '' @
                             stdout (outputOf env (started s + i)) @ newline)
                     [0..<length cs])),
      s\<lparr>started := started s + length cs,
        trace := trace s @ map (\<lambda>c. Exec ''git'' [''log'', ''-1'', ''--format=%s'', c] True True) cs\<rparr>)"
proof (induction cs arbitrary: body s)
  case Nil
  then show ?case by (simp add: ret_def)
next
  case (Cons c cs)
  show ?case
    by (simp add: Cons.IH substring0_def map_upt_Suc del: upt_Suc)
qed

lemma thenDo_appendCommitLines:
  "thenDo (appendCommitLines env cs body) f s =
     f (body @
        concat (map (\<lambda>i. ''- '' @ backtick @ take 7 (cs ! i) @ backtick @ '' '' @
                          stdout (outputOf env (started s + i)) @ newline)
                  [0..<length cs]))
       (s\<lparr>started := started s + length cs,
          trace := trace s @ map (\<lambda>c. Exec ''git'' [''log'', ''-1'', ''--format=%s'', c] True True) cs\<rparr>)"
  by (simp add: thenDo_def appendCommitLines_result)

lemma emitsOnly_after_create:
  "emitsOnly (\<lambda>e. \<not> isPullsCreate e)
     (case pullsCreate env of
        Inl e \<Rightarrow> throw e
      | Inr (url, number) \<Rightarrow>
          thenDo (info (''Pull request created: '' @ url)) (\<lambda>_.
          thenDo
            (if length (labels inputs) > 0 then
               thenDo (info (''Adding labels: '' @ joinComma (labels inputs))) (\<lambda>_.
               thenDo (emit (AddLabels owner repo number (labels inputs))) (\<lambda>_.
                 case addLabels env of Some e \<Rightarrow> throw e | None \<Rightarrow> ret ()))
             else ret ()) (\<lambda>_.
            ret (url, number))))"
  by (auto split: sum.split option.split)


text \<open>
  C8. Let \<open>r\<close> be a successful result of replaying the commits of the inputs, and let the
  platform's client be available. Then \<open>createPullRequest\<close> asks the platform for one pull
  request, whose title is the input title when that is not empty, otherwise
  \<open>Cherry-pick: \<close> followed by the subject of the commit when one commit was applied, and
  \<open>Cherry-pick N commits to \<close> followed by the target branch otherwise, \<open>N\<close> being the
  number of applied commits in decimal; and whose body, when the input body is empty, is
  the fixed heading, then for each index of \<open>successfulCommits\<close> in increasing order one
  line made of the first 7 characters of that commit and its subject, then the footer.
  The subjects are the outputs of the \<open>git log\<close> processes started for these commits, in
  the order of the list (after the one for the title, when there is one).
\<close>

theorem pull_request_text:
  assumes "cherryPickCommits env (commits inputs) s0 = (Inr r, s1)" and "status r = success"
    and "getOctokit env (ghToken inputs) = None"
  shows "\<exists>pre post.
     trace (snd (createPullRequest env inputs b r s)) =
       trace s @ pre @
       [PullsCreate (fst (ownerAndRepo (repository inputs))) (snd (ownerAndRepo (repository inputs)))
          (if prTitle inputs \<noteq> [] then prTitle inputs
           else if length (successfulCommits r) = 1
             then ''Cherry-pick: '' @ stdout (outputOf env (started s))
           else ''Cherry-pick '' @ showNat (length (successfulCommits r)) @ '' commits to '' @
                targetBranch inputs)
          (if prBody inputs \<noteq> [] then prBody inputs
           else ''## Cherry-pick PR'' @ newline @ newline @
                ''**Target branch:** '' @ backtick @ targetBranch inputs @ backtick @
                  newline @ newline @
                ''### Commits cherry-picked:'' @ newline @
                concat (map (\<lambda>i. ''- '' @ backtick @ take 7 (successfulCommits r ! i) @ backtick @
                                  '' '' @
                                  stdout (outputOf env
                                    (started s +
                                     (if prTitle inputs = [] \<and> length (successfulCommits r) = 1
                                      then 1 else 0) + i)) @
                                  newline)
                          [0..<length (successfulCommits r)]) @
                newline @ ''---'' @ newline @ bodyFooter)
          b (targetBranch inputs) (draft inputs)] @ post \<and>
     execCalls pre =
       (if prTitle inputs = [] \<and> length (successfulCommits r) = 1
        then [(''git'', [''log'', ''-1'', ''--format=%s'', successfulCommits r ! 0])] else []) @
       (if prBody inputs = []
        then map (\<lambda>c. (''git'', [''log'', ''-1'', ''--format=%s'', c])) (successfulCommits r)
        else []) \<and>
     list_all (\<lambda>e. \<not> isPullsCreate e) (pre @ post)"
proof -
  have whole: "commits inputs = successfulCommits r"
    using success_is_whole [OF assms(1,2)] by simp
  define applied where "applied = successfulCommits r"
  define k :: nat where "k = (if prTitle inputs = [] \<and> length applied = 1 then 1 else 0)"
  define title where "title =
    (if prTitle inputs \<noteq> [] then prTitle inputs
     else if length applied = 1 then ''Cherry-pick: '' @ stdout (outputOf env (started s))
     else ''Cherry-pick '' @ showNat (length applied) @ '' commits to '' @ targetBranch inputs)"
  define body where "body =
    (if prBody inputs \<noteq> [] then prBody inputs
     else ''## Cherry-pick PR'' @ newline @ newline @
          ''**Target branch:** '' @ backtick @ targetBranch inputs @ backtick @ newline @ newline @
          ''### Commits cherry-picked:'' @ newline @
          concat (map (\<lambda>i. ''- '' @ backtick @ take 7 (applied ! i) @ backtick @ '' '' @
                            stdout (outputOf env (started s + k + i)) @ newline)
                    [0..<length applied]) @
          newline @ ''---'' @ newline @ bodyFooter)"
  define titleLookup where "titleLookup =
    (if prTitle inputs = [] \<and> length applied = 1
     then [Exec ''git'' [''log'', ''-1'', ''--format=%s'', applied ! 0] True True] else [])"
  define bodyLookups where "bodyLookups =
    (if prBody inputs = []
     then map (\<lambda>c. Exec ''git'' [''log'', ''-1'', ''--format=%s'', c] True True) applied else [])"
  define owner where "owner = fst (ownerAndRepo (repository inputs))"
  define repo where "repo = snd (ownerAndRepo (repository inputs))"
  define finish where "finish =
     (case pullsCreate env of
        Inl e \<Rightarrow> throw e
      | Inr (url, number) \<Rightarrow>
          thenDo (info (''Pull request created: '' @ url)) (\<lambda>_.
          thenDo
            (if length (labels inputs) > 0 then
               thenDo (info (''Adding labels: '' @ joinComma (labels inputs))) (\<lambda>_.
               thenDo (emit (AddLabels owner repo number (labels inputs))) (\<lambda>_.
                 case addLabels env of Some e \<Rightarrow> throw e | None \<Rightarrow> ret ()))
             else ret ()) (\<lambda>_.
            ret (url, number))))"
  define pre where "pre = titleLookup @ bodyLookups @ [Info ''Creating pull request...'']"
  define n where "n = started s + k + (if prBody inputs = [] then length applied else 0)"
  have run': "createPullRequest env inputs b r s =
      finish (s\<lparr>started := n,
                trace := trace s @ pre @
                  [PullsCreate owner repo title body b (targetBranch inputs) (draft inputs)]\<rparr>)"
    unfolding createPullRequest_def whole applied_def [symmetric] finish_def owner_def repo_def
    by (simp add: assms(3) case_prod_beta thenDo_appendCommitLines n_def
          pre_def title_def body_def k_def titleLookup_def bodyLookups_def)
  from emitsOnly_after_create [where env = env and inputs = inputs and owner = owner and repo = repo] have
    "emitsOnly (\<lambda>e. \<not> isPullsCreate e) finish"
    unfolding finish_def .
  then have "\<exists>post. trace (snd (finish (s\<lparr>started := n,
                trace := trace s @ pre @
                  [PullsCreate owner repo title body b (targetBranch inputs) (draft inputs)]\<rparr>))) =
       trace (s\<lparr>started := n,
                trace := trace s @ pre @
                  [PullsCreate owner repo title body b (targetBranch inputs) (draft inputs)]\<rparr>) @ post \<and>
       list_all (\<lambda>e. \<not> isPullsCreate e) post"
    unfolding emitsOnly_def by (rule spec)
  then obtain post where
    post: "trace (snd (createPullRequest env inputs b r s)) =
       trace s @ pre @
         [PullsCreate owner repo title body b (targetBranch inputs) (draft inputs)] @ post"
      "list_all (\<lambda>e. \<not> isPullsCreate e) post"
    unfolding run' [symmetric] by (elim exE conjE) simp
  have calls: "execCalls pre =
       (if prTitle inputs = [] \<and> length applied = 1
        then [(''git'', [''log'', ''-1'', ''--format=%s'', applied ! 0])] else []) @
       (if prBody inputs = []
        then map (\<lambda>c. (''git'', [''log'', ''-1'', ''--format=%s'', c])) applied
        else [])"
    by (simp add: pre_def titleLookup_def bodyLookups_def execCalls_def comp_def)
  have quiet: "list_all (\<lambda>e. \<not> isPullsCreate e) (pre @ post)"
    using post(2) by (auto simp add: pre_def titleLookup_def bodyLookups_def list_all_iff)
  show ?thesis
    using post(1) calls quiet
    unfolding owner_def repo_def title_def body_def k_def applied_def
    by (intro exI [of _ pre] exI [of _ post] conjI)
qed


lemma subjects_outputs:
  "outputOf (surroundings subjects ins) n =
     (if n = 0 then \<lparr>stdout = ''Fix login'', stderr = [], exitCode = 0\<rparr>
      else if n = 1 then \<lparr>stdout = ''Add tests'', stderr = [], exitCode = 0\<rparr>
      else \<lparr>stdout = [], stderr = [], exitCode = 0\<rparr>)"
  by (simp add: subjects_def defaultMaxBuffer_def trim_def isWhiteSpace_def)

lemma oneSubject_outputs:
  "outputOf (surroundings oneSubject ins) n =
     (if n < 2 then \<lparr>stdout = ''Fix login'', stderr = [], exitCode = 0\<rparr>
      else \<lparr>stdout = [], stderr = [], exitCode = 0\<rparr>)"
  by (simp add: oneSubject_def defaultMaxBuffer_def trim_def isWhiteSpace_def)

lemma ownerAndRepo_demo: "ownerAndRepo ''flxbl-io/demo'' = (Some ''flxbl-io'', Some ''demo'')"
  by (simp add: ownerAndRepo_def)

lemma showNat_two: "showNat (Suc (Suc 0)) = ''2''"
  by (simp add: showNat.simps digitChar_def)

theorem pull_request_text_witness:
  "(\<exists>pre post.
      trace (snd (createPullRequest (surroundings oneSubject noInputs) (scenarioRecord [''abc1234''])
                    ''cherrypick/demo''
                    \<lparr>status = success, successfulCommits = [''abc1234''],
                      failedCommit = None, error = None\<rparr> initialState)) =
        pre @
        [PullsCreate (Some ''flxbl-io'') (Some ''demo'')
           ''Cherry-pick: Fix login''
           (''## Cherry-pick PR'' @ newline @ newline @
            ''**Target branch:** '' @ backtick @ ''release/1.0'' @ backtick @ newline @ newline @
            ''### Commits cherry-picked:'' @ newline @
            ''- '' @ backtick @ ''abc1234'' @ backtick @ '' Fix login'' @ newline @
            newline @ ''---'' @ newline @ bodyFooter)
           ''cherrypick/demo'' ''release/1.0'' False] @ post) \<and>
   (\<exists>pre post.
      trace (snd (createPullRequest (surroundings subjects noInputs)
                    (scenarioRecord [''abc1234def'', ''def5678abc''])
                    ''cherrypick/demo''
                    \<lparr>status = success, successfulCommits = [''abc1234def'', ''def5678abc''],
                      failedCommit = None, error = None\<rparr> initialState)) =
        pre @
        [PullsCreate (Some ''flxbl-io'') (Some ''demo'')
           ''Cherry-pick 2 commits to release/1.0''
           (''## Cherry-pick PR'' @ newline @ newline @
            ''**Target branch:** '' @ backtick @ ''release/1.0'' @ backtick @ newline @ newline @
            ''### Commits cherry-picked:'' @ newline @
            ''- '' @ backtick @ ''abc1234'' @ backtick @ '' Fix login'' @ newline @
            ''- '' @ backtick @ ''def5678'' @ backtick @ '' Add tests'' @ newline @
            newline @ ''---'' @ newline @ bodyFooter)
           ''cherrypick/demo'' ''release/1.0'' False] @ post)"
proof -
  let ?env = "surroundings subjects noInputs"
  let ?s0 = "\<lparr>started = 2, trace = []\<rparr>"
  let ?one = "\<lparr>status = success, successfulCommits = [''abc1234''],
                      failedCommit = None, error = None\<rparr>"
  let ?two = "\<lparr>status = success, successfulCommits = [''abc1234def'', ''def5678abc''],
                      failedCommit = None, error = None\<rparr>"
  let ?env1 = "surroundings oneSubject noInputs"
  have octo: "getOctokit ?env (ghToken (scenarioRecord cs)) = None"
    and octo1: "getOctokit ?env1 (ghToken (scenarioRecord cs)) = None" for cs
    by simp_all
  have one: "cherryPickCommits ?env1 (commits (scenarioRecord [''abc1234''])) ?s0 =
      (Inr ?one, snd (cherryPickCommits ?env1 (commits (scenarioRecord [''abc1234''])) ?s0))"
    by (simp add: scenarioRecord_def cherryPickCommits_def oneSubject_outputs ret_def)
  have two: "cherryPickCommits ?env (commits (scenarioRecord [''abc1234def'', ''def5678abc''])) ?s0 =
      (Inr ?two, snd (cherryPickCommits ?env (commits (scenarioRecord [''abc1234def'', ''def5678abc''])) ?s0))"
    by (simp add: scenarioRecord_def cherryPickCommits_def subjects_outputs ret_def)
  have first: "\<exists>pre post.
      trace (snd (createPullRequest ?env1 (scenarioRecord [''abc1234'']) ''cherrypick/demo'' ?one initialState)) =
        pre @
        [PullsCreate (Some ''flxbl-io'') (Some ''demo'')
           ''Cherry-pick: Fix login''
           (''## Cherry-pick PR'' @ newline @ newline @
            ''**Target branch:** '' @ backtick @ ''release/1.0'' @ backtick @ newline @ newline @
            ''### Commits cherry-picked:'' @ newline @
            ''- '' @ backtick @ ''abc1234'' @ backtick @ '' Fix login'' @ newline @
            newline @ ''---'' @ newline @ bodyFooter)
           ''cherrypick/demo'' ''release/1.0'' False] @ post"
    using pull_request_text [OF one _ octo1, of "''cherrypick/demo''" initialState]
    by (simp add: scenarioRecord_def initialState_def oneSubject_outputs ownerAndRepo_demo)
       (elim exE conjE, (rule exI)+, assumption)
  have second: "\<exists>pre post.
      trace (snd (createPullRequest ?env (scenarioRecord [''abc1234def'', ''def5678abc''])
                    ''cherrypick/demo'' ?two initialState)) =
        pre @
        [PullsCreate (Some ''flxbl-io'') (Some ''demo'')
           ''Cherry-pick 2 commits to release/1.0''
           (''## Cherry-pick PR'' @ newline @ newline @
            ''**Target branch:** '' @ backtick @ ''release/1.0'' @ backtick @ newline @ newline @
            ''### Commits cherry-picked:'' @ newline @
            ''- '' @ backtick @ ''abc1234'' @ backtick @ '' Fix login'' @ newline @
            ''- '' @ backtick @ ''def5678'' @ backtick @ '' Add tests'' @ newline @
            newline @ ''---'' @ newline @ bodyFooter)
           ''cherrypick/demo'' ''release/1.0'' False] @ post"
    using pull_request_text [OF two _ octo, of "''cherrypick/demo''" initialState]
    by (simp add: scenarioRecord_def initialState_def subjects_outputs ownerAndRepo_demo showNat_two)
       (elim exE conjE, (rule exI)+, assumption)
  show ?thesis
    using first second by (rule conjI)
qed

end
